theory Spec2Isabelle
  imports Main "HOL-Library.Sublist" "HOL-Library.AList"
begin


section \<open>JavaScript values, errors and string primitives\<close>

text \<open>
  The program is the MySQL dialect of an ORM: a query generator (a class of methods that
  return SQL text or throw) and a query interface (functions that submit generated text
  through \<^verbatim>\<open>this.sequelize.query\<close> and decide the next statement from the rows that
  come back). Strings are lists of characters; a thrown exception is the \<open>Inl\<close> branch
  of a sum; a promise is the pair of its outcome and the statements submitted so far.
\<close>

datatype jsval =
    JUndefined
  | JNull
  | JBool bool
  | JNum int
  | JStr string
  | JArr "jsval list"
  | JObj "(string \<times> jsval) list"

text \<open>JavaScript truthiness: what \<^verbatim>\<open>if (v)\<close> tests.\<close>

fun truthy :: "jsval \<Rightarrow> bool" where
  "truthy JUndefined = False"
| "truthy JNull = False"
| "truthy (JBool b) = b"
| "truthy (JNum n) = (n \<noteq> 0)"
| "truthy (JStr s) = (s \<noteq> [])"
| "truthy (JArr _) = True"
| "truthy (JObj _) = True"

text \<open>lodash \<^verbatim>\<open>_.isString\<close> on the values modelled here.\<close>

fun isString :: "jsval \<Rightarrow> bool" where
  "isString (JStr _) = True"
| "isString _ = False"

text \<open>
  The exceptions the two files throw: plain \<^verbatim>\<open>Error\<close> with its message,
  \<^verbatim>\<open>TypeError\<close> where a method is called on a value that lacks it,
  \<^verbatim>\<open>RangeError\<close> where a built-in method refuses its argument,
  \<^verbatim>\<open>UnknownConstraintError\<close> with its message, constraint and table, and the opaque
  failure of the execution channel.
\<close>

datatype error =
    Error string
  | TypeError string
  | RangeError string
  | UnknownConstraintError string jsval jsval
  | ExecutionError string

text \<open>\<^verbatim>\<open>Array.prototype.join\<close> on an array of strings.\<close>

fun join :: "string \<Rightarrow> string list \<Rightarrow> string" where
  "join sep [] = []"
| "join sep [x] = x"
| "join sep (x # y # ys) = x @ sep @ join sep (y # ys)"

text \<open>\<^verbatim>\<open>String.prototype.split\<close> on a one-character separator.\<close>

fun split :: "char \<Rightarrow> string \<Rightarrow> string list" where
  "split d [] = [[]]"
| "split d (c # cs) =
     (if c = d then [] # split d cs
      else (case split d cs of [] \<Rightarrow> [[c]] | p # ps \<Rightarrow> (c # p) # ps))"

text \<open>\<^verbatim>\<open>_.includes(string, needle)\<close>: does the needle occur as a substring?\<close>

fun includes_str :: "string \<Rightarrow> string \<Rightarrow> bool" where
  "includes_str [] needle = (needle = [])"
| "includes_str (c # cs) needle = (prefix needle (c # cs) \<or> includes_str cs needle)"

text \<open>\<^verbatim>\<open>String.prototype.indexOf\<close> for one character; \<open>-1\<close> when it does not occur.\<close>

fun indexOf :: "char \<Rightarrow> string \<Rightarrow> int" where
  "indexOf c [] = -1"
| "indexOf c (x # xs) =
     (if x = c then 0 else (let i = indexOf c xs in if i < 0 then -1 else i + 1))"

text \<open>
  White space as \<^verbatim>\<open>\s\<close> and \<^verbatim>\<open>trim\<close> see it, among the characters a \<open>char\<close> can
  hold: tab, line feed, vertical tab, form feed, carriage return, space, no-break space.
\<close>

definition white_space :: "char list" where
  "white_space = [CHR 0x09, CHR 0x0A, CHR 0x0B, CHR 0x0C, CHR 0x0D, CHR 0x20, CHR 0xA0]"

definition line_terminators :: "char list" where
  "line_terminators = [CHR 0x0A, CHR 0x0D]"

definition trim :: "string \<Rightarrow> string" where
  "trim s = rev (dropWhile (\<lambda>c. c \<in> set white_space)
                  (rev (dropWhile (\<lambda>c. c \<in> set white_space) s)))"

section \<open>Regular expressions\<close>

text \<open>
  The source matches strings with regular-expression literals. They are written here as
  terms of \<open>rx\<close>, and \<open>ms\<close> is the backtracking matcher of the language: the list of
  remainders of the input after each way the expression can match a prefix, in the order
  in which backtracking tries them (greedy repetition first, alternatives left to right).
  The head of that list is the match \<^verbatim>\<open>exec\<close> returns. A repetition refuses an
  iteration that consumes nothing, as the language does.
\<close>

datatype rx =
    In "char list"
  | NotIn "char list"
  | Eps
  | Eos
  | Seq rx rx
  | Alt rx rx
  | Star rx

fun ms :: "rx \<Rightarrow> string \<Rightarrow> string list" where
  "ms (In cs) s = (case s of [] \<Rightarrow> [] | c # t \<Rightarrow> if c \<in> set cs then [t] else [])"
| "ms (NotIn cs) s = (case s of [] \<Rightarrow> [] | c # t \<Rightarrow> if c \<notin> set cs then [t] else [])"
| "ms Eps s = [s]"
| "ms Eos s = (if s = [] then [s] else [])"
| "ms (Seq a b) s = concat (map (ms b) (ms a s))"
| "ms (Alt a b) s = ms a s @ ms b s"
| "ms (Star a) s =
     concat (map (\<lambda>t. if length t < length s then ms (Star a) t else []) (ms a s)) @ [s]"

text \<open>Derived forms: \<^verbatim>\<open>r?\<close>, \<^verbatim>\<open>r+\<close>, \<^verbatim>\<open>r{0,2}\<close>, a literal text.\<close>

definition Opt :: "rx \<Rightarrow> rx" where
  "Opt r = Alt r Eps"

definition Plus :: "rx \<Rightarrow> rx" where
  "Plus r = Seq r (Star r)"

definition UpTo2 :: "rx \<Rightarrow> rx" where
  "UpTo2 r = Opt (Seq r (Opt r))"

fun Lit :: "string \<Rightarrow> rx" where
  "Lit [] = Eps"
| "Lit (c # cs) = Seq (In [c]) (Lit cs)"

text \<open>
  \<^verbatim>\<open>regex.exec(s)\<close> for an expression anchored with \<^verbatim>\<open>^\<close>: the text of the first
  match at the start of \<open>s\<close> (\<^verbatim>\<open>match[0]\<close>), if there is one.
\<close>

definition exec_start :: "rx \<Rightarrow> string \<Rightarrow> string option" where
  "exec_start r s =
     (case ms r s of [] \<Rightarrow> None | t # _ \<Rightarrow> Some (take (length s - length t) s))"

text \<open>
  The same for an anchored expression of the form \<^verbatim>\<open>^a(b)\<close>: \<^verbatim>\<open>match[0]\<close> and the
  text of the capture group \<open>b\<close>.
\<close>

definition exec_start2 :: "rx \<Rightarrow> rx \<Rightarrow> string \<Rightarrow> (string \<times> string) option" where
  "exec_start2 a b s =
     (case concat (map (\<lambda>t. map (\<lambda>u. (t, u)) (ms b t)) (ms a s)) of
        [] \<Rightarrow> None
      | (t, u) # _ \<Rightarrow> Some (take (length s - length u) s, take (length t - length u) t))"

text \<open>
  An expression without \<^verbatim>\<open>^\<close> is tried at each position from the left:
  \<^verbatim>\<open>match.index\<close> and \<^verbatim>\<open>match[0]\<close> of the leftmost match.
\<close>

fun search :: "rx \<Rightarrow> string \<Rightarrow> (nat \<times> string) option" where
  "search r [] = (case exec_start r [] of None \<Rightarrow> None | Some m \<Rightarrow> Some (0, m))"
| "search r (c # cs) =
     (case exec_start r (c # cs) of
        Some m \<Rightarrow> Some (0, m)
      | None \<Rightarrow> (case search r cs of None \<Rightarrow> None | Some (i, m) \<Rightarrow> Some (Suc i, m)))"

text \<open>
  \<^verbatim>\<open>s.replace(regex, f)\<close> without the \<^verbatim>\<open>g\<close> flag: the leftmost match is replaced by
  \<open>f\<close> of its text.
\<close>

definition replace_first :: "rx \<Rightarrow> (string \<Rightarrow> string) \<Rightarrow> string \<Rightarrow> string" where
  "replace_first r f s =
     (case search r s of
        None \<Rightarrow> s
      | Some (i, m) \<Rightarrow> take i s @ f m @ drop (i + length m) s)"

text \<open>
  With the \<^verbatim>\<open>g\<close> flag every match is replaced, each search starting where the last
  match ended (one character further after an empty match).
\<close>

function replace_all :: "rx \<Rightarrow> (string \<Rightarrow> string) \<Rightarrow> string \<Rightarrow> string" where
  "replace_all r f [] = (case exec_start r [] of None \<Rightarrow> [] | Some m \<Rightarrow> f m)"
| "replace_all r f (c # cs) =
     (case exec_start r (c # cs) of
        None \<Rightarrow> c # replace_all r f cs
      | Some m \<Rightarrow>
          if m = [] then f m @ c # replace_all r f cs
          else f m @ replace_all r f (drop (length m) (c # cs)))"
  by pat_completeness auto
termination
  by (relation "measure (\<lambda>(r, f, s). length s)") auto


subsection \<open>Facts about the matcher\<close>

text \<open>Every remainder is a suffix of the input.\<close>

declare ms.simps(7) [simp del]

lemma ms_Star_mem:
  "t \<in> set (ms (Star a) s) \<longleftrightarrow>
     t = s \<or> (\<exists>u \<in> set (ms a s). length u < length s \<and> t \<in> set (ms (Star a) u))"
  by (subst ms.simps(7)) (auto split: if_splits)

lemma ms_suffix: "t \<in> set (ms r s) \<Longrightarrow> suffix t s"
proof (induction r s arbitrary: t rule: ms.induct)
  case (1 cs s)
  then show ?case by (auto split: list.splits if_splits simp: suffix_Cons)
next
  case (2 cs s)
  then show ?case by (auto split: list.splits if_splits simp: suffix_Cons)
next
  case (3 s)
  then show ?case by simp
next
  case (4 s)
  then show ?case by (simp split: if_splits)
next
  case (5 a b s)
  from "5.prems" obtain u where u: "u \<in> set (ms a s)" and t: "t \<in> set (ms b u)"
    by auto
  from "5.IH"(1) [OF u] "5.IH"(2) [OF u t] show ?case
    by (rule suffix_order.trans [rotated])
next
  case (6 a b s)
  then show ?case by auto
next
  case (7 a s)
  show ?case
  proof (cases "t = s")
    case True
    then show ?thesis by simp
  next
    case False
    with "7.prems" obtain u where u: "u \<in> set (ms a s)" and l: "length u < length s"
      and t: "t \<in> set (ms (Star a) u)"
      by (auto simp: ms_Star_mem [of t a s])
    from "7.IH"(1) [OF u] "7.IH"(2) [OF u l t] show ?thesis
      by (rule suffix_order.trans [rotated])
  qed
qed

lemma ms_length_le: "t \<in> set (ms r s) \<Longrightarrow> length t \<le> length s"
  by (rule suffix_length_le [OF ms_suffix])

text \<open>An expression that cannot match the empty text consumes at least one character.\<close>

fun nullable :: "rx \<Rightarrow> bool" where
  "nullable (In cs) = False"
| "nullable (NotIn cs) = False"
| "nullable Eps = True"
| "nullable Eos = True"
| "nullable (Seq a b) = (nullable a \<and> nullable b)"
| "nullable (Alt a b) = (nullable a \<or> nullable b)"
| "nullable (Star a) = True"

lemma ms_progress: "\<not> nullable r \<Longrightarrow> t \<in> set (ms r s) \<Longrightarrow> length t < length s"
proof (induction r arbitrary: s t)
  case (Seq a b)
  from Seq.prems(2) obtain u where u: "u \<in> set (ms a s)" and t: "t \<in> set (ms b u)"
    by auto
  show ?case
  proof (cases "nullable a")
    case False
    from Seq.IH(1) [OF False u] ms_length_le [OF t] show ?thesis by simp
  next
    case True
    with Seq.prems(1) have "\<not> nullable b" by simp
    from Seq.IH(2) [OF this t] ms_length_le [OF u] show ?thesis by simp
  qed
next
  case (Alt a b)
  then show ?case by auto
qed (auto split: list.splits if_splits)

text \<open>The characters a non-empty match can start with.\<close>

fun first_ok :: "rx \<Rightarrow> char \<Rightarrow> bool" where
  "first_ok (In cs) c = (c \<in> set cs)"
| "first_ok (NotIn cs) c = (c \<notin> set cs)"
| "first_ok Eps c = False"
| "first_ok Eos c = False"
| "first_ok (Seq a b) c = (first_ok a c \<or> (nullable a \<and> first_ok b c))"
| "first_ok (Alt a b) c = (first_ok a c \<or> first_ok b c)"
| "first_ok (Star a) c = first_ok a c"

lemma ms_first: "t \<in> set (ms r s) \<Longrightarrow> length t < length s \<Longrightarrow> first_ok r (hd s)"
proof (induction r s arbitrary: t rule: ms.induct)
  case (5 a b s)
  from "5.prems"(1) obtain u where u: "u \<in> set (ms a s)" and t: "t \<in> set (ms b u)"
    by auto
  show ?case
  proof (cases "length u < length s")
    case True
    from "5.IH"(1) [OF u True] show ?thesis by simp
  next
    case False
    with ms_suffix [OF u] have eq: "u = s"
      by (metis suffix_length_le le_antisym not_le_imp_less suffix_def append_eq_append_conv append_Nil)
    with u ms_progress [of a s s] have "nullable a" by auto
    moreover from "5.IH"(2) [OF u t] "5.prems"(2) eq have "first_ok b (hd s)" by simp
    ultimately show ?thesis by simp
  qed
next
  case (7 a s)
  from "7.prems" obtain u where u: "u \<in> set (ms a s)" and l: "length u < length s"
    by (auto simp: ms_Star_mem [of t a s])
  from "7.IH"(1) [OF u l] show ?case by simp
qed (auto split: list.splits if_splits)

lemma exec_start_prefix: "exec_start r s = Some m \<Longrightarrow> prefix m s"
  by (auto simp: exec_start_def take_is_prefix split: list.splits)

lemma exec_start_nonempty:
  assumes "exec_start r s = Some m" and "\<not> nullable r"
  shows "0 < length m"
proof -
  from assms(1) obtain t ts where ts: "ms r s = t # ts" and m: "m = take (length s - length t) s"
    by (auto simp: exec_start_def split: list.splits)
  from ts have "t \<in> set (ms r s)" by simp
  from ms_progress [OF assms(2) this] m show ?thesis by simp
qed


section \<open>The expression tokenizer\<close>

text \<open>
  The three expressions of \<^verbatim>\<open>_checkValidJsonStatement\<close>. All carry the \<^verbatim>\<open>i\<close> flag,
  so a letter stands for both of its cases; \<^verbatim>\<open>\w\<close>, \<^verbatim>\<open>\d\<close> and \<^verbatim>\<open>\s\<close> are not
  changed by it.
\<close>

definition letters :: "char list" where
  "letters = ''abcdefghijklmnopqrstuvwxyzABCDEFGHIJKLMNOPQRSTUVWXYZ''"

definition digits :: "char list" where
  "digits = ''0123456789''"

definition word_chars :: "char list" where
  "word_chars = letters @ digits @ ''_''"

text \<open>
  \<^verbatim>\<open>/^\s*((?:[a-z]+_){0,2}jsonb?(?:_[a-z]+){0,2})\([^)]*\)/i\<close>
\<close>

definition jsonFunctionName :: rx where
  "jsonFunctionName =
     Seq (UpTo2 (Seq (Plus (In letters)) (In ''_'')))
       (Seq (Seq (In ''jJ'') (Seq (In ''sS'') (Seq (In ''oO'') (In ''nN''))))
         (Seq (Opt (In ''bB''))
            (UpTo2 (Seq (In ''_'') (Plus (In letters))))))"

definition jsonFunctionRegex :: rx where
  "jsonFunctionRegex =
     Seq (Star (In white_space))
       (Seq jsonFunctionName
          (Seq (In ''('') (Seq (Star (NotIn '')'')) (In '')''))))"

text \<open>
  \<^verbatim>\<open>/^\s*(->>?|@>|<@|\?[|&]?|\|{2}|#-)/i\<close>
\<close>

definition jsonOperatorRegex :: rx where
  "jsonOperatorRegex =
     Seq (Star (In white_space))
       (Alt (Seq (Lit ''->'') (Opt (In ''>'')))
       (Alt (Lit ''@>'')
       (Alt (Lit ''<@'')
       (Alt (Seq (In ''?'') (Opt (In ''|&'')))
       (Alt (Lit ''||'')
            (Lit ''#-''))))))"

text \<open>
  The capture group of \<^verbatim>\<open>/^\s*((?:([`"'])(?:(?!\2).|\2{2})*\2)|[\w\d\s]+|[().,;+-])/i\<close>.
  The back-reference \<^verbatim>\<open>\2\<close> is the quote character that opened the run, so the
  quoted alternative is written once per quote character \<open>q\<close>: \<open>q\<close>, then any number of
  either a character that is neither \<open>q\<close> nor a line terminator (\<^verbatim>\<open>(?!\2).\<close>) or a
  doubled \<open>q\<close>, then \<open>q\<close>.
\<close>

definition quoted_run :: "char \<Rightarrow> rx" where
  "quoted_run q =
     Seq (In [q]) (Seq (Star (Alt (NotIn (q # line_terminators)) (Seq (In [q]) (In [q])))) (In [q]))"

definition tokenCaptureGroup :: rx where
  "tokenCaptureGroup =
     Alt (Alt (quoted_run (CHR 0x60)) (Alt (quoted_run (CHR 0x22)) (quoted_run (CHR 0x27))))
    (Alt (Plus (In (word_chars @ digits @ white_space)))
         (In ''().,;+-''))"

definition tokenCaptureRegex :: "string \<Rightarrow> (string \<times> string) option" where
  "tokenCaptureRegex = exec_start2 (Star (In white_space)) tokenCaptureGroup"


subsection \<open>Progress of the three expressions\<close>

lemma ms_Seq_mem:
  "t \<in> set (ms (Seq a b) s) \<longleftrightarrow> (\<exists>u \<in> set (ms a s). t \<in> set (ms b u))"
  by auto

lemma indexOf_nonneg: "c \<in> set xs \<Longrightarrow> 0 \<le> indexOf c xs"
  by (induction xs) (auto simp: Let_def)

lemma indexOf_pos: "c \<in> set xs \<Longrightarrow> hd xs \<noteq> c \<Longrightarrow> 0 < indexOf c xs"
  using indexOf_nonneg [of c "tl xs"] by (cases xs) (auto simp: Let_def)

lemma take_suffix_diff: "s = p @ t \<Longrightarrow> take (length s - length t) s = p"
  by simp

lemma jsonFunctionRegex_paren:
  assumes "exec_start jsonFunctionRegex s = Some m"
  shows "0 < indexOf CHR ''('' m"
proof -
  from assms obtain t ts where ts: "ms jsonFunctionRegex s = t # ts"
    and m: "m = take (length s - length t) s"
    by (auto simp: exec_start_def split: list.splits)
  from ts have mem: "t \<in> set (ms jsonFunctionRegex s)" by simp
  have nn: "\<not> nullable jsonFunctionRegex"
    by (simp add: jsonFunctionRegex_def jsonFunctionName_def)
  from ms_progress [OF nn mem] have lt: "length t < length s" .
  from ms_first [OF mem lt] have "first_ok jsonFunctionRegex (hd s)" .
  then have hd: "hd s \<noteq> CHR ''(''"
    by (auto simp: jsonFunctionRegex_def jsonFunctionName_def UpTo2_def Opt_def Plus_def
        letters_def white_space_def)
  from mem obtain u where u: "u \<in> set (ms (Star (In white_space)) s)"
    and r1: "t \<in> set (ms (Seq jsonFunctionName
          (Seq (In ''('') (Seq (Star (NotIn '')'')) (In '')'')))) u)"
    unfolding jsonFunctionRegex_def by (auto simp only: ms_Seq_mem)
  from r1 obtain v where v: "v \<in> set (ms jsonFunctionName u)"
    and r2: "t \<in> set (ms (Seq (In ''('') (Seq (Star (NotIn '')'')) (In '')''))) v)"
    by (auto simp only: ms_Seq_mem)
  from r2 obtain w where w: "w \<in> set (ms (In ''('') v)"
    and t: "t \<in> set (ms (Seq (Star (NotIn '')'')) (In '')'')) w)"
    by (auto simp only: ms_Seq_mem)
  from w have v': "v = CHR ''('' # w"
    by (auto split: list.splits if_splits)
  from ms_suffix [OF u] obtain p1 where p1: "s = p1 @ u" by (auto simp: suffix_def)
  from ms_suffix [OF v] obtain p2 where p2: "u = p2 @ v" by (auto simp: suffix_def)
  from ms_suffix [OF t] obtain p3 where p3: "w = p3 @ t" by (auto simp: suffix_def)
  have s: "s = (p1 @ p2 @ CHR ''('' # p3) @ t"
    by (simp add: p1 p2 v' p3)
  from take_suffix_diff [OF s] m have m': "m = p1 @ p2 @ CHR ''('' # p3" by simp
  then have in_m: "CHR ''('' \<in> set m" by simp
  from m' have "m \<noteq> []" by simp
  with m' s have "hd m = hd s" by (cases p1; cases p2) auto
  with hd have "hd m \<noteq> CHR ''(''" by simp
  from indexOf_pos [OF in_m this] show ?thesis .
qed

lemma jsonOperatorRegex_progress:
  "exec_start jsonOperatorRegex s = Some m \<Longrightarrow> 0 < length m"
  by (erule exec_start_nonempty) (simp add: jsonOperatorRegex_def Opt_def)

lemma exec_start2_nonempty:
  assumes "exec_start2 a b s = Some (m0, m1)" and "\<not> nullable b"
  shows "0 < length m0"
proof -
  from assms(1) obtain t u rest
    where c: "concat (map (\<lambda>t. map (\<lambda>u. (t, u)) (ms b t)) (ms a s)) = (t, u) # rest"
      and m0: "m0 = take (length s - length u) s"
    unfolding exec_start2_def by (auto split: list.splits)
  have "(t, u) \<in> set (concat (map (\<lambda>t. map (\<lambda>u. (t, u)) (ms b t)) (ms a s)))"
    unfolding c by simp
  then have t: "t \<in> set (ms a s)" and u: "u \<in> set (ms b t)"
    by auto
  from ms_progress [OF assms(2) u] ms_length_le [OF t] m0 show ?thesis by simp
qed

lemma tokenCaptureRegex_progress:
  "tokenCaptureRegex s = Some (m0, m1) \<Longrightarrow> 0 < length m0"
  unfolding tokenCaptureRegex_def
  by (erule exec_start2_nonempty)
     (simp add: tokenCaptureGroup_def quoted_run_def Plus_def)

lemma advance_less: "a \<noteq> [] \<Longrightarrow> i < n \<Longrightarrow> n - (i + length a) < n - (i::nat)"
  by (cases a) auto

subsection \<open>The scanning loop\<close>

text \<open>
  The \<^verbatim>\<open>while\<close> loop of \<^verbatim>\<open>_checkValidJsonStatement\<close>, with its local variables as
  arguments. It returns \<open>(openingBrackets, closingBrackets, hasJsonFunction,
  hasInvalidToken)\<close> as they stand when the loop is left.
\<close>

function scan :: "string \<Rightarrow> nat \<Rightarrow> nat \<Rightarrow> nat \<Rightarrow> bool \<Rightarrow> nat \<times> nat \<times> bool \<times> bool" where
  "scan stmt currentIndex openingBrackets closingBrackets hasJsonFunction =
     (if currentIndex < length stmt then
        (case exec_start jsonFunctionRegex (drop currentIndex stmt) of
           Some functionMatches \<Rightarrow>
             scan stmt (nat (int currentIndex + indexOf CHR ''('' functionMatches))
               openingBrackets closingBrackets True
         | None \<Rightarrow>
            (case exec_start jsonOperatorRegex (drop currentIndex stmt) of
               Some operatorMatches \<Rightarrow>
                 scan stmt (currentIndex + length operatorMatches)
                   openingBrackets closingBrackets True
             | None \<Rightarrow>
                (case tokenCaptureRegex (drop currentIndex stmt) of
                   Some (tokenMatches, capturedToken) \<Rightarrow>
                     if capturedToken = ''('' then
                       scan stmt (currentIndex + length tokenMatches)
                         (openingBrackets + 1) closingBrackets hasJsonFunction
                     else if capturedToken = '')'' then
                       scan stmt (currentIndex + length tokenMatches)
                         openingBrackets (closingBrackets + 1) hasJsonFunction
                     else if capturedToken = '';'' then
                       (openingBrackets, closingBrackets, hasJsonFunction, True)
                     else
                       scan stmt (currentIndex + length tokenMatches)
                         openingBrackets closingBrackets hasJsonFunction
                 | None \<Rightarrow> (openingBrackets, closingBrackets, hasJsonFunction, False))))
      else (openingBrackets, closingBrackets, hasJsonFunction, False))"
  by pat_completeness auto
termination
  by (relation "measure (\<lambda>(stmt, currentIndex, _). length stmt - currentIndex)")
     (auto dest!: jsonFunctionRegex_paren jsonOperatorRegex_progress tokenCaptureRegex_progress
        intro: advance_less)

declare scan.simps [simp del]

text \<open>
  \<^verbatim>\<open>_checkValidJsonStatement(stmt)\<close>: \<open>false\<close> for anything that is not a string;
  for a string, the scan, then the check for an invalid statement.
\<close>

definition checkValidJsonStatement :: "jsval \<Rightarrow> error + bool" where
  "checkValidJsonStatement stmt =
     (case stmt of
        JStr s \<Rightarrow>
          (case scan s 0 0 0 False of
             (openingBrackets, closingBrackets, hasJsonFunction, hasInvalidToken) \<Rightarrow>
               if hasJsonFunction \<and> (hasInvalidToken \<or> openingBrackets \<noteq> closingBrackets)
               then Inl (Error (''Invalid json statement: '' @ s))
               else Inr hasJsonFunction)
      | _ \<Rightarrow> Inr False)"


subsection \<open>The scan as the specification tells it\<close>

text \<open>
  The specification describes the tokenizer as a left-to-right scan that, at each cursor
  position, tries a JSON function name (the cursor moves to its parenthesis), then a
  JSON operator (the cursor moves past it), then a generic token (the cursor moves past
  it, and a semicolon ends the scan); where none matches the scan ends. \<open>tokens\<close> is
  that scan, returning what it recognised in order.
\<close>

datatype token = JsonFunctionName | JsonOperator | GenericToken string

function tokens :: "string \<Rightarrow> nat \<Rightarrow> token list" where
  "tokens stmt cursor =
     (if cursor < length stmt then
        (case exec_start jsonFunctionRegex (drop cursor stmt) of
           Some m \<Rightarrow>
             JsonFunctionName # tokens stmt (nat (int cursor + indexOf CHR ''('' m))
         | None \<Rightarrow>
            (case exec_start jsonOperatorRegex (drop cursor stmt) of
               Some m \<Rightarrow> JsonOperator # tokens stmt (cursor + length m)
             | None \<Rightarrow>
                (case tokenCaptureRegex (drop cursor stmt) of
                   Some (m, tok) \<Rightarrow>
                     if tok = '';'' then [GenericToken tok]
                     else GenericToken tok # tokens stmt (cursor + length m)
                 | None \<Rightarrow> [])))
      else [])"
  by pat_completeness auto
termination
  by (relation "measure (\<lambda>(stmt, cursor). length stmt - cursor)")
     (auto dest!: jsonFunctionRegex_paren jsonOperatorRegex_progress tokenCaptureRegex_progress
        intro: advance_less)

declare tokens.simps [simp del]

definition json_recorded :: "token list \<Rightarrow> bool" where
  "json_recorded ts = (JsonFunctionName \<in> set ts \<or> JsonOperator \<in> set ts)"

definition semicolon_consumed :: "token list \<Rightarrow> bool" where
  "semicolon_consumed ts = (GenericToken '';'' \<in> set ts)"

definition parens_unbalanced :: "token list \<Rightarrow> bool" where
  "parens_unbalanced ts =
     (count_list ts (GenericToken ''('') \<noteq> count_list ts (GenericToken '')''))"

lemma scan_tokens:
  "scan stmt i ob cb hj =
     (ob + count_list (tokens stmt i) (GenericToken ''(''),
      cb + count_list (tokens stmt i) (GenericToken '')''),
      hj \<or> json_recorded (tokens stmt i),
      semicolon_consumed (tokens stmt i))"
proof (induction stmt i ob cb hj rule: scan.induct)
  case (1 stmt i ob cb hj)
  show ?case
  proof (cases "i < length stmt")
    case False
    then show ?thesis
      by (simp add: scan.simps [of stmt i] tokens.simps [of stmt i] json_recorded_def
          semicolon_consumed_def)
  next
    case lt: True
    show ?thesis
    proof (cases "exec_start jsonFunctionRegex (drop i stmt)")
      case (Some m)
      with lt have eq: "tokens stmt i =
          JsonFunctionName # tokens stmt (nat (int i + indexOf CHR ''('' m))"
        and eq': "scan stmt i ob cb hj =
          scan stmt (nat (int i + indexOf CHR ''('' m)) ob cb True"
        by (simp_all add: tokens.simps [of stmt i] scan.simps [of stmt i])
      from "1.IH"(5) [OF lt Some] show ?thesis
        unfolding eq eq' by (simp add: json_recorded_def semicolon_consumed_def)
    next
      case fnone: None
      show ?thesis
      proof (cases "exec_start jsonOperatorRegex (drop i stmt)")
        case (Some m)
        with lt fnone have eq: "tokens stmt i = JsonOperator # tokens stmt (i + length m)"
          and eq': "scan stmt i ob cb hj = scan stmt (i + length m) ob cb True"
          by (simp_all add: tokens.simps [of stmt i] scan.simps [of stmt i])
        from "1.IH"(4) [OF lt fnone Some] show ?thesis
          unfolding eq eq' by (simp add: json_recorded_def semicolon_consumed_def)
      next
        case onone: None
        show ?thesis
        proof (cases "tokenCaptureRegex (drop i stmt)")
          case None
          with lt fnone onone show ?thesis
            by (simp add: scan.simps [of stmt i] tokens.simps [of stmt i] json_recorded_def
                semicolon_consumed_def)
        next
          case (Some p)
          obtain m tok where p: "p = (m, tok)" by (cases p)
          note c = lt fnone onone Some p
          consider (op) "tok = ''(''" | (cl) "tok = '')''" | (semi) "tok = '';''"
            | (other) "tok \<noteq> ''(''" "tok \<noteq> '')''" "tok \<noteq> '';''"
            by blast
          then show ?thesis
          proof cases
            case op
            with c have eq: "tokens stmt i = GenericToken tok # tokens stmt (i + length m)"
              and eq': "scan stmt i ob cb hj = scan stmt (i + length m) (ob + 1) cb hj"
              by (simp_all add: tokens.simps [of stmt i] scan.simps [of stmt i])
            from "1.IH"(1) [OF lt fnone onone Some p [symmetric] op] op show ?thesis
              unfolding eq eq' by (simp add: json_recorded_def semicolon_consumed_def)
          next
            case cl
            with c have eq: "tokens stmt i = GenericToken tok # tokens stmt (i + length m)"
              and eq': "scan stmt i ob cb hj = scan stmt (i + length m) ob (cb + 1) hj"
              by (simp_all add: tokens.simps [of stmt i] scan.simps [of stmt i])
            have ne: "tok \<noteq> ''(''" using cl by simp
            from "1.IH"(2) [OF lt fnone onone Some p [symmetric] ne cl] cl show ?thesis
              unfolding eq eq' by (simp add: json_recorded_def semicolon_consumed_def)
          next
            case semi
            with c show ?thesis
              by (simp add: scan.simps [of stmt i] tokens.simps [of stmt i] json_recorded_def
                  semicolon_consumed_def)
          next
            case other
            with c have eq: "tokens stmt i = GenericToken tok # tokens stmt (i + length m)"
              and eq': "scan stmt i ob cb hj = scan stmt (i + length m) ob cb hj"
              by (simp_all add: tokens.simps [of stmt i] scan.simps [of stmt i])
            from "1.IH"(3) [OF lt fnone onone Some p [symmetric] other] other show ?thesis
              unfolding eq eq' by (simp add: json_recorded_def semicolon_consumed_def)
          qed
        qed
      qed
    qed
  qed
qed

lemma semicolon_last_Cons:
  assumes "x \<noteq> GenericToken '';''"
    and "GenericToken '';'' \<in> set ts \<Longrightarrow>
           last ts = GenericToken '';'' \<and> GenericToken '';'' \<notin> set (butlast ts)"
    and "GenericToken '';'' \<in> set (x # ts)"
  shows "last (x # ts) = GenericToken '';'' \<and> GenericToken '';'' \<notin> set (butlast (x # ts))"
proof -
  from assms(1,3) have mem: "GenericToken '';'' \<in> set ts" by simp
  then have "ts \<noteq> []" by auto
  with assms(1) assms(2) [OF mem] show ?thesis by simp
qed

lemma tokens_semicolon_last:
  "GenericToken '';'' \<in> set (tokens stmt i) \<Longrightarrow>
     last (tokens stmt i) = GenericToken '';'' \<and>
     GenericToken '';'' \<notin> set (butlast (tokens stmt i))"
proof (induction stmt i rule: tokens.induct)
  case (1 stmt i)
  show ?case
  proof (cases "i < length stmt")
    case False
    with "1.prems" show ?thesis by (simp add: tokens.simps [of stmt i])
  next
    case lt: True
    show ?thesis
    proof (cases "exec_start jsonFunctionRegex (drop i stmt)")
      case (Some m)
      with lt have eq: "tokens stmt i =
          JsonFunctionName # tokens stmt (nat (int i + indexOf CHR ''('' m))"
        by (simp add: tokens.simps [of stmt i])
      show ?thesis
        unfolding eq
        by (rule semicolon_last_Cons [OF _ "1.IH"(3) [OF lt Some]])
           (use "1.prems" in \<open>simp_all add: eq\<close>)
    next
      case fnone: None
      show ?thesis
      proof (cases "exec_start jsonOperatorRegex (drop i stmt)")
        case (Some m)
        with lt fnone have eq: "tokens stmt i = JsonOperator # tokens stmt (i + length m)"
          by (simp add: tokens.simps [of stmt i])
        show ?thesis
          unfolding eq
          by (rule semicolon_last_Cons [OF _ "1.IH"(2) [OF lt fnone Some]])
             (use "1.prems" in \<open>simp_all add: eq\<close>)
      next
        case onone: None
        show ?thesis
        proof (cases "tokenCaptureRegex (drop i stmt)")
          case None
          with lt fnone onone "1.prems" show ?thesis
            by (simp add: tokens.simps [of stmt i])
        next
          case (Some p)
          obtain m tok where p: "p = (m, tok)" by (cases p)
          show ?thesis
          proof (cases "tok = '';''")
            case True
            with lt fnone onone Some p show ?thesis
              by (simp add: tokens.simps [of stmt i])
          next
            case False
            with lt fnone onone Some p
            have eq: "tokens stmt i = GenericToken tok # tokens stmt (i + length m)"
              by (simp add: tokens.simps [of stmt i])
            show ?thesis
              unfolding eq
              by (rule semicolon_last_Cons
                    [OF _ "1.IH"(1) [OF lt fnone onone Some p [symmetric] False]])
                 (use "1.prems" False in \<open>simp_all add: eq\<close>)
          qed
        qed
      qed
    qed
  qed
qed

lemma scan_semicolon_stops:
  "i < length stmt \<Longrightarrow> exec_start jsonFunctionRegex (drop i stmt) = None \<Longrightarrow>
   exec_start jsonOperatorRegex (drop i stmt) = None \<Longrightarrow>
   tokenCaptureRegex (drop i stmt) = Some (m, '';'') \<Longrightarrow>
   scan stmt i ob cb hj = (ob, cb, hj, True)"
  by (simp add: scan.simps [of stmt i])


section \<open>The query generator\<close>

subsection \<open>Conversions and property access\<close>

text \<open>
  Numbers are modelled by the integers; \<open>show_int\<close> prints one as JavaScript does.
\<close>

fun show_nat :: "nat \<Rightarrow> string" where
  "show_nat n =
     (if n < 10 then [''0123456789'' ! n]
      else show_nat (n div 10) @ [''0123456789'' ! (n mod 10)])"

declare show_nat.simps [simp del]

definition show_int :: "int \<Rightarrow> string" where
  "show_int i = (if i < 0 then ''-'' @ show_nat (nat (- i)) else show_nat (nat i))"

text \<open>
  \<^verbatim>\<open>String(v)\<close>, which is also what a template literal and \<^verbatim>\<open>'...' + v\<close> apply
  to \<open>v\<close>. An array prints its elements separated by commas, \<^verbatim>\<open>null\<close> and
  \<^verbatim>\<open>undefined\<close> elements as nothing.
\<close>

fun js_to_string :: "jsval \<Rightarrow> string" where
  "js_to_string JUndefined = ''undefined''"
| "js_to_string JNull = ''null''"
| "js_to_string (JBool b) = (if b then ''true'' else ''false'')"
| "js_to_string (JNum n) = show_int n"
| "js_to_string (JStr s) = s"
| "js_to_string (JArr vs) =
     join '','' (map (\<lambda>v. case v of JUndefined \<Rightarrow> [] | JNull \<Rightarrow> [] | _ \<Rightarrow> js_to_string v) vs)"
| "js_to_string (JObj kvs) = ''[object Object]''"

text \<open>\<^verbatim>\<open>Array.prototype.join(sep)\<close> on an array of any values.\<close>

definition js_join :: "string \<Rightarrow> jsval list \<Rightarrow> string" where
  "js_join sep vs =
     join sep (map (\<lambda>v. case v of JUndefined \<Rightarrow> [] | JNull \<Rightarrow> [] | _ \<Rightarrow> js_to_string v) vs)"

text \<open>
  Reading a property \<^verbatim>\<open>v.k\<close>, for the property names the two files read
  (\<^verbatim>\<open>tableName\<close>, \<^verbatim>\<open>schema\<close>, the columns of a result row, the fields of a
  parameter): \<^verbatim>\<open>undefined\<close> on a primitive or where the object has no such key, a
  \<^verbatim>\<open>TypeError\<close> on \<^verbatim>\<open>null\<close> and \<^verbatim>\<open>undefined\<close>.
\<close>

fun field :: "jsval \<Rightarrow> string \<Rightarrow> jsval" where
  "field (JObj kvs) k = (case map_of kvs k of Some v \<Rightarrow> v | None \<Rightarrow> JUndefined)"
| "field _ k = JUndefined"

definition get_prop :: "jsval \<Rightarrow> string \<Rightarrow> error + jsval" where
  "get_prop v k =
     (if v = JUndefined then Inl (TypeError (''Cannot read property '' @ k @ '' of undefined''))
      else if v = JNull then Inl (TypeError (''Cannot read property '' @ k @ '' of null''))
      else Inr (field v k))"

text \<open>lodash \<^verbatim>\<open>_.has(v, k)\<close>: is \<open>k\<close> an own property of \<open>v\<close>?\<close>

fun has :: "jsval \<Rightarrow> string \<Rightarrow> bool" where
  "has (JObj kvs) k = (map_of kvs k \<noteq> None)"
| "has _ k = False"

text \<open>\<^verbatim>\<open>String.prototype.toUpperCase\<close> on the letters a to z.\<close>

definition upper_char :: "char \<Rightarrow> char" where
  "upper_char c =
     (if c \<in> set ''abcdefghijklmnopqrstuvwxyz'' then char_of (of_char c - (32::nat)) else c)"


definition toUpperCase :: "string \<Rightarrow> string" where
  "toUpperCase s = map upper_char s"


text \<open>\<^verbatim>\<open>regex.test(s)\<close> for an expression without \<^verbatim>\<open>^\<close>.\<close>

definition test :: "rx \<Rightarrow> string \<Rightarrow> bool" where
  "test r s = (search r s \<noteq> None)"

subsection \<open>Writing a property\<close>

text \<open>
  An object is the list of its own keys and values in the order in which they are
  enumerated: the keys that are array indices first, in ascending order, then the
  others in the order of their creation. \<open>js_assign\<close> is \<^verbatim>\<open>obj[k] = v\<close> on such a
  list: a key that is there keeps its place.
\<close>

definition index_value :: "string \<Rightarrow> int" where
  "index_value k = foldl (\<lambda>n c. 10 * n + (of_char c - 48)) 0 k"

definition is_array_index :: "string \<Rightarrow> bool" where
  "is_array_index k =
     (k \<noteq> [] \<and> list_all (\<lambda>c. c \<in> set digits) k \<and> (k = ''0'' \<or> hd k \<noteq> CHR ''0'')
      \<and> index_value k < 4294967295)"

fun insert_key :: "string \<Rightarrow> 'a \<Rightarrow> (string \<times> 'a) list \<Rightarrow> (string \<times> 'a) list" where
  "insert_key k v [] = [(k, v)]"
| "insert_key k v ((k', v') # rest) =
     (if is_array_index k \<and> (\<not> is_array_index k' \<or> index_value k < index_value k')
      then (k, v) # (k', v') # rest
      else (k', v') # insert_key k v rest)"

definition js_assign :: "string \<Rightarrow> 'a \<Rightarrow> (string \<times> 'a) list \<Rightarrow> (string \<times> 'a) list" where
  "js_assign k v obj =
     (if map_of obj k \<noteq> None then AList.update k v obj else insert_key k v obj)"

subsection \<open>The primitives the generator inherits\<close>

text \<open>
  The class extends an abstract generator and calls utilities that are not part of the
  two files. They are parameters of the model, collected in one record. The primitives
  compute a text or a value from what they are given: identifier and table quoting,
  literal escaping, \<^verbatim>\<open>Utils.addTicks\<close> (behind \<^verbatim>\<open>wrapSingleQuote\<close>),
  \<^verbatim>\<open>Utils.underscore\<close>, \<^verbatim>\<open>Utils.defaultValueSchemable\<close>, \<^verbatim>\<open>addSchema\<close>, the
  condition parser, and \<^verbatim>\<open>toString\<close> of a data type, which is a method of the data
  type and not of the generator. Three inherited methods are handed objects of the
  caller whole, and what they do to them is not in the two files:
  \<^verbatim>\<open>getWhereConditions(where, null, model, options)\<close>,
  \<^verbatim>\<open>insertQuery(tableName, insertValues, rawAttributes, options)\<close> and the inherited
  \<^verbatim>\<open>handleSequelizeMethod\<close>. These return, beside their result, the objects as they
  leave them: the condition, the model and the options; the options; the method object.
\<close>

text \<open>
  The objects \<^verbatim>\<open>handleSequelizeMethod\<close> tells apart with \<^verbatim>\<open>instanceof\<close>: a
  \<^verbatim>\<open>Utils.Json\<close> with its fields \<^verbatim>\<open>conditions\<close>, \<^verbatim>\<open>path\<close> and \<^verbatim>\<open>value\<close>, a
  \<^verbatim>\<open>Utils.Cast\<close> with its fields \<^verbatim>\<open>val\<close>, \<^verbatim>\<open>type\<close> and \<^verbatim>\<open>json\<close>, and any
  other method object.
\<close>

datatype smth =
    Json jsval jsval jsval
  | Cast jsval string jsval
  | OtherMethod string

record env =
  quoteIdentifier :: "jsval \<Rightarrow> string"
  quoteTable :: "jsval \<Rightarrow> string"
  escape :: "jsval \<Rightarrow> string"
  wrapSingleQuote :: "jsval \<Rightarrow> string"
  underscore :: "string \<Rightarrow> string"
  defaultValueSchemable :: "jsval \<Rightarrow> bool"
  addSchema :: "jsval \<Rightarrow> jsval"
  typeToString :: "jsval \<Rightarrow> string"
  parseConditionObject :: "jsval \<Rightarrow> (jsval list \<times> jsval) list"
  getWhereConditions ::
    "jsval \<Rightarrow> jsval \<Rightarrow> jsval \<Rightarrow> (error + jsval) \<times> jsval \<times> jsval \<times> jsval"
  insertQuery ::
    "jsval \<Rightarrow> jsval \<Rightarrow> jsval \<Rightarrow> (string \<times> jsval) list
       \<Rightarrow> (error + string) \<times> (string \<times> jsval) list"
  super_handleSequelizeMethod :: "smth \<Rightarrow> (error + string) \<times> smth"

subsection \<open>Stored routines\<close>

text \<open>\<^verbatim>\<open>throwMethodUndefined(methodName)\<close> always throws.\<close>

definition throwMethodUndefined :: "string \<Rightarrow> error + 'a" where
  "throwMethodUndefined methodName =
     Inl (Error (''The method '' @ [CHR 0x22] @ methodName @ [CHR 0x22]
                  @ '' is not defined for mysql dialect.''))"

text \<open>
  \<^verbatim>\<open>renameFunction(oldFunctionName, params, newFunctionName)\<close> calls it and has no other
  statement.
\<close>

definition renameFunction :: "jsval \<Rightarrow> jsval \<Rightarrow> jsval \<Rightarrow> error + string" where
  "renameFunction oldFunctionName params newFunctionName =
     throwMethodUndefined ''renameFunction''"

text \<open>
  \<^verbatim>\<open>expandOptions(options)\<close>: empty text when \<^verbatim>\<open>options\<close> is undefined or
  \<^verbatim>\<open>_.isEmpty\<close>, else the options joined, each on its own indented line. A non-empty
  value that is not an array has no \<^verbatim>\<open>join\<close>.
\<close>

fun isEmpty :: "jsval \<Rightarrow> bool" where
  "isEmpty (JStr s) = (s = [])"
| "isEmpty (JArr vs) = (vs = [])"
| "isEmpty (JObj kvs) = (kvs = [])"
| "isEmpty _ = True"

definition expandOptions :: "jsval \<Rightarrow> error + string" where
  "expandOptions options =
     (if options = JUndefined \<or> isEmpty options then Inr []
      else (case options of
              JArr vs \<Rightarrow> Inr ([CHR 0x0A, CHR 0x09] @ js_join [CHR 0x0A, CHR 0x09] vs)
            | _ \<Rightarrow> Inl (TypeError ''options.join is not a function'')))"

text \<open>
  The body of the \<^verbatim>\<open>_.each\<close> callback of \<^verbatim>\<open>expandFunctionParamList\<close>: the
  definition of one parameter, as the array \<^verbatim>\<open>paramDef\<close>.
\<close>

definition paramDef :: "jsval \<Rightarrow> error + jsval list" where
  "paramDef curParam =
     (if has curParam ''type'' then
        (case (if has curParam ''direction'' then
                 (case field curParam ''direction'' of
                    JStr d \<Rightarrow> Inr (if toUpperCase d \<noteq> ''IN'' then [JStr d] else [])
                  | _ \<Rightarrow> Inl (TypeError ''curParam.direction.toUpperCase is not a function''))
               else Inr []) of
           Inl e \<Rightarrow> Inl e
         | Inr direction_part \<Rightarrow>
             Inr (direction_part
                  @ (if has curParam ''name'' then [field curParam ''name''] else [])
                  @ [field curParam ''type'']))
      else Inl (Error ''function or trigger used with a parameter without any type''))"

text \<open>The \<^verbatim>\<open>_.each\<close> loop, with the array \<^verbatim>\<open>paramList\<close> it pushes to.\<close>

fun expandParams :: "jsval list \<Rightarrow> string list \<Rightarrow> error + string list" where
  "expandParams [] paramList = Inr paramList"
| "expandParams (curParam # rest) paramList =
     (case paramDef curParam of
        Inl e \<Rightarrow> Inl e
      | Inr pd \<Rightarrow>
          (let joined = js_join '' '' pd
           in expandParams rest (if joined \<noteq> [] then paramList @ [joined] else paramList)))"

definition expandFunctionParamList :: "jsval \<Rightarrow> error + string" where
  "expandFunctionParamList params =
     (case params of
        JArr ps \<Rightarrow>
          (case expandParams ps [] of
             Inl e \<Rightarrow> Inl e
           | Inr paramList \<Rightarrow> Inr (join '', '' paramList))
      | _ \<Rightarrow> Inl (Error (''expandFunctionParamList: function parameters array required, ''
                          @ ''including an empty one for no arguments'')))"

text \<open>
  The generator's \<^verbatim>\<open>createFunction\<close>: the four required arguments are checked
  first, then the parameter list, the body and the options are expanded, then the
  template is filled.
\<close>

definition createFunction_sql ::
  "jsval \<Rightarrow> jsval \<Rightarrow> jsval \<Rightarrow> jsval \<Rightarrow> jsval \<Rightarrow> jsval \<Rightarrow> error + string" where
  "createFunction_sql functionName params returnType language body options =
     (if \<not> truthy functionName \<or> \<not> truthy returnType \<or> \<not> truthy language \<or> \<not> truthy body
      then Inl (Error (''createFunction missing some parameters. ''
                        @ ''Did you pass functionName, returnType, language and body?''))
      else
        (case expandFunctionParamList params of
           Inl e \<Rightarrow> Inl e
         | Inr paramList \<Rightarrow>
            (let indentedBody =
                   replace_all (In [CHR 0x0A]) (\<lambda>m. [CHR 0x0A, CHR 0x09]) (js_to_string body)
             in case expandOptions options of
                  Inl e \<Rightarrow> Inl e
                | Inr expandedOptions \<Rightarrow>
                    Inr (''CREATE FUNCTION '' @ js_to_string functionName @ ''('' @ paramList
                         @ '')'' @ [CHR 0x0A] @ ''        RETURNS '' @ js_to_string returnType
                         @ [CHR 0x0A] @ ''        '' @ expandedOptions
                         @ [CHR 0x0A] @ ''      BEGIN''
                         @ [CHR 0x0A] @ ''        '' @ indentedBody
                         @ [CHR 0x0A] @ ''      END;''))))"




subsection \<open>What the parameter list holds\<close>

text \<open>
  The text of one parameter as the specification describes it: the direction unless it
  is IN, the name when the entry has one, the type, separated by spaces.
\<close>

definition direction_is_text :: "jsval \<Rightarrow> bool" where
  "direction_is_text p = (has p ''direction'' \<longrightarrow> isString (field p ''direction''))"

definition shown_direction :: "jsval \<Rightarrow> jsval list" where
  "shown_direction p =
     (if has p ''direction'' \<and> toUpperCase (js_to_string (field p ''direction'')) \<noteq> ''IN''
      then [field p ''direction''] else [])"

definition shown_name :: "jsval \<Rightarrow> jsval list" where
  "shown_name p = (if has p ''name'' then [field p ''name''] else [])"

definition param_text :: "jsval \<Rightarrow> string" where
  "param_text p = js_join '' '' (shown_direction p @ shown_name p @ [field p ''type''])"

lemma paramDef_typed:
  "has p ''type'' \<Longrightarrow> direction_is_text p \<Longrightarrow>
   paramDef p = Inr (shown_direction p @ shown_name p @ [field p ''type''])"
  by (cases "field p ''direction''")
     (auto simp: paramDef_def direction_is_text_def shown_direction_def shown_name_def)

lemma paramDef_untyped:
  "\<not> has p ''type'' \<Longrightarrow>
   paramDef p = Inl (Error ''function or trigger used with a parameter without any type'')"
  by (simp add: paramDef_def)

lemma expandParams_typed:
  "\<forall>p \<in> set ps. has p ''type'' \<and> direction_is_text p \<Longrightarrow>
   expandParams ps acc = Inr (acc @ filter (\<lambda>t. t \<noteq> []) (map param_text ps))"
proof (induction ps arbitrary: acc)
  case Nil
  then show ?case by simp
next
  case (Cons p ps)
  then have p: "paramDef p = Inr (shown_direction p @ shown_name p @ [field p ''type''])"
    by (simp add: paramDef_typed)
  from Cons.prems have rest: "\<forall>p \<in> set ps. has p ''type'' \<and> direction_is_text p"
    by simp
  show ?case
    by (simp add: p Cons.IH [OF rest] Let_def param_text_def)
qed

lemma expandParams_raises:
  "\<exists>p \<in> set ps. \<not> has p ''type'' \<Longrightarrow> \<exists>e. expandParams ps acc = Inl e"
proof (induction ps arbitrary: acc)
  case Nil
  then show ?case by simp
next
  case (Cons p ps)
  show ?case
  proof (cases "paramDef p")
    case (Inl e)
    then show ?thesis by simp
  next
    case (Inr pd)
    then have "has p ''type''"
      by (auto simp: paramDef_def split: if_splits)
    with Cons.prems have "\<exists>p \<in> set ps. \<not> has p ''type''" by auto
    from Cons.IH [OF this] Inr show ?thesis by (simp add: Let_def)
  qed
qed

lemma expandParams_untyped:
  "\<exists>p \<in> set ps. \<not> has p ''type'' \<Longrightarrow> \<forall>p \<in> set ps. direction_is_text p \<Longrightarrow>
   expandParams ps acc =
     Inl (Error ''function or trigger used with a parameter without any type'')"
proof (induction ps arbitrary: acc)
  case Nil
  then show ?case by simp
next
  case (Cons p ps)
  show ?case
  proof (cases "has p ''type''")
    case False
    then show ?thesis by (simp add: paramDef_untyped)
  next
    case True
    with Cons.prems have ex: "\<exists>p \<in> set ps. \<not> has p ''type''"
      and dt: "\<forall>p \<in> set ps. direction_is_text p" and dp: "direction_is_text p"
      by auto
    from paramDef_typed [OF True dp] Cons.IH [OF ex dt] show ?thesis
      by (simp add: Let_def)
  qed
qed

lemma join_last_nonempty: "t \<noteq> [] \<Longrightarrow> join sep (xs @ [t]) \<noteq> []"
  by (induction sep xs rule: join.induct) auto

lemma param_text_nonempty:
  assumes "field p ''type'' = JStr t" and "t \<noteq> []"
  shows "param_text p \<noteq> []"
proof -
  have "js_join '' '' (xs @ [JStr t]) \<noteq> []" for xs
    unfolding js_join_def using join_last_nonempty [OF assms(2)] by simp
  from this [of "shown_direction p @ shown_name p"] show ?thesis
    by (simp add: param_text_def assms(1))
qed

definition type_is_text :: "jsval \<Rightarrow> bool" where
  "type_is_text p = (case field p ''type'' of JStr t \<Rightarrow> t \<noteq> [] | _ \<Rightarrow> False)"

lemma type_is_text_nonempty: "type_is_text p \<Longrightarrow> param_text p \<noteq> []"
  by (cases "field p ''type''") (simp_all add: type_is_text_def param_text_nonempty)


subsection \<open>Statements the query interface asks for\<close>

text \<open>\<^verbatim>\<open>removeColumnQuery(tableName, attributeName)\<close>.\<close>

definition removeColumnQuery :: "env \<Rightarrow> jsval \<Rightarrow> jsval \<Rightarrow> error + string" where
  "removeColumnQuery env tableName attributeName =
     Inr (''ALTER TABLE '' @ quoteTable env tableName @ '' DROP ''
          @ quoteIdentifier env attributeName @ '';'')"

text \<open>\<^verbatim>\<open>dropForeignKeyQuery(tableName, foreignKey)\<close>.\<close>

definition dropForeignKeyQuery :: "env \<Rightarrow> jsval \<Rightarrow> jsval \<Rightarrow> error + string" where
  "dropForeignKeyQuery env tableName foreignKey =
     Inr (''ALTER TABLE '' @ quoteTable env tableName @ '' DROP FOREIGN KEY ''
          @ quoteIdentifier env foreignKey @ '';'')"

text \<open>\<^verbatim>\<open>a || b\<close> on values.\<close>

definition js_or :: "jsval \<Rightarrow> jsval \<Rightarrow> jsval" where
  "js_or a b = (if truthy a then a else b)"

definition getForeignKeysQueryFields :: string where
  "getForeignKeysQueryFields =
     join '',''
       [''CONSTRAINT_NAME as constraint_name'',
        ''CONSTRAINT_NAME as constraintName'',
        ''CONSTRAINT_SCHEMA as constraintSchema'',
        ''CONSTRAINT_SCHEMA as constraintCatalog'',
        ''TABLE_NAME as tableName'',
        ''TABLE_SCHEMA as tableSchema'',
        ''TABLE_SCHEMA as tableCatalog'',
        ''COLUMN_NAME as columnName'',
        ''REFERENCED_TABLE_SCHEMA as referencedTableSchema'',
        ''REFERENCED_TABLE_SCHEMA as referencedTableCatalog'',
        ''REFERENCED_TABLE_NAME as referencedTableName'',
        ''REFERENCED_COLUMN_NAME as referencedColumnName'']"

text \<open>\<^verbatim>\<open>getForeignKeyQuery(table, columnName)\<close>.\<close>

definition getForeignKeyQuery :: "env \<Rightarrow> jsval \<Rightarrow> jsval \<Rightarrow> error + string" where
  "getForeignKeyQuery env table columnName =
     (case get_prop table ''tableName'' of
        Inl e \<Rightarrow> Inl e
      | Inr tn \<Rightarrow>
          (let tableName = js_or tn table;
               schemaName = field table ''schema''
           in Inr (''SELECT '' @ getForeignKeysQueryFields
                @ '' FROM INFORMATION_SCHEMA.KEY_COLUMN_USAGE''
                @ '' WHERE (REFERENCED_TABLE_NAME = '' @ wrapSingleQuote env tableName
                @ (if truthy schemaName
                   then '' AND REFERENCED_TABLE_SCHEMA = '' @ wrapSingleQuote env schemaName
                   else [])
                @ '' AND REFERENCED_COLUMN_NAME = '' @ wrapSingleQuote env columnName
                @ '') OR (TABLE_NAME = '' @ wrapSingleQuote env tableName
                @ (if truthy schemaName
                   then '' AND TABLE_SCHEMA = '' @ wrapSingleQuote env schemaName
                   else [])
                @ '' AND COLUMN_NAME = '' @ wrapSingleQuote env columnName
                @ '' AND REFERENCED_TABLE_NAME IS NOT NULL''
                @ '')'')))"

text \<open>\<^verbatim>\<open>showConstraintsQuery(table, constraintName)\<close>.\<close>

definition showConstraintsQuery :: "env \<Rightarrow> jsval \<Rightarrow> jsval \<Rightarrow> error + string" where
  "showConstraintsQuery env table constraintName =
     (case get_prop table ''tableName'' of
        Inl e \<Rightarrow> Inl e
      | Inr tn \<Rightarrow>
          (let tableName = js_or tn table;
               schemaName = field table ''schema'';
               sql = join '' ''
                 [''SELECT CONSTRAINT_CATALOG AS constraintCatalog,'',
                  ''CONSTRAINT_NAME AS constraintName,'',
                  ''CONSTRAINT_SCHEMA AS constraintSchema,'',
                  ''CONSTRAINT_TYPE AS constraintType,'',
                  ''TABLE_NAME AS tableName,'',
                  ''TABLE_SCHEMA AS tableSchema'',
                  ''from INFORMATION_SCHEMA.TABLE_CONSTRAINTS'',
                  ''WHERE table_name='' @ [CHR 0x27] @ js_to_string tableName @ [CHR 0x27]];
               sql1 = (if truthy constraintName
                       then sql @ '' AND constraint_name = '' @ [CHR 0x27]
                            @ js_to_string constraintName @ [CHR 0x27]
                       else sql);
               sql2 = (if truthy schemaName
                       then sql1 @ '' AND TABLE_SCHEMA = '' @ [CHR 0x27]
                            @ js_to_string schemaName @ [CHR 0x27]
                       else sql1)
           in Inr (sql2 @ '';'')))"

text \<open>
  \<^verbatim>\<open>removeIndexQuery(tableName, indexNameOrAttributes)\<close>: a name that is not a string
  is taken for an array of attribute names and joined.
\<close>

definition removeIndexQuery :: "env \<Rightarrow> jsval \<Rightarrow> jsval \<Rightarrow> error + string" where
  "removeIndexQuery env tableName indexNameOrAttributes =
     (case (case indexNameOrAttributes of
              JStr s \<Rightarrow> Inr (JStr s)
            | JArr vs \<Rightarrow>
                Inr (JStr (underscore env (js_to_string tableName @ ''_'' @ js_join ''_'' vs)))
            | _ \<Rightarrow> Inl (TypeError ''indexNameOrAttributes.join is not a function'')) of
        Inl e \<Rightarrow> Inl e
      | Inr indexName \<Rightarrow>
          Inr (''DROP INDEX '' @ quoteIdentifier env indexName @ '' ON ''
               @ quoteTable env tableName))"


subsection \<open>Structured-value accessors and casts\<close>









subsection \<open>upsertQuery\<close>




subsection \<open>Facts about casts and option objects\<close>





subsection \<open>createTableQuery\<close>

text \<open>
  \<^verbatim>\<open>dataType.match(/^(.+) (REFERENCES.*)$/)\<close>: the groups \<^verbatim>\<open>match[1]\<close> and
  \<^verbatim>\<open>match[2]\<close>, or nothing where the expression does not match. The dot matches every
  character but a line terminator.
\<close>

definition any_char :: rx where
  "any_char = NotIn line_terminators"

definition references_tail :: rx where
  "references_tail = Seq (In '' '') (Seq (Lit ''REFERENCES'') (Seq (Star any_char) Eos))"

definition references_match :: "string \<Rightarrow> (string \<times> string) option" where
  "references_match dataType =
     (case exec_start2 (Plus any_char) references_tail dataType of
        None \<Rightarrow> None
      | Some (m0, m_tail) \<Rightarrow> Some (take (length m0 - length m_tail) m0, tl m_tail))"

text \<open>\<^verbatim>\<open>s.replace(/PRIMARY KEY/, '')\<close>.\<close>

definition strip_primary_key :: "string \<Rightarrow> string" where
  "strip_primary_key s = replace_first (Lit ''PRIMARY KEY'') (\<lambda>m. []) s"

text \<open>
  \<^verbatim>\<open>foreignKeys[attr] = match[2]\<close> on the object that starts as \<^verbatim>\<open>{}\<close>: the
  assignment of a string to a key, except that the key \<^verbatim>\<open>__proto__\<close> reaches the
  setter of the prototype, which ignores a string, so that nothing is stored.
\<close>

definition assign_key ::
  "string \<Rightarrow> string \<Rightarrow> (string \<times> string) list \<Rightarrow> (string \<times> string) list" where
  "assign_key attr v obj = (if attr = ''__proto__'' then obj else js_assign attr v obj)"

text \<open>
  The loop over the columns. \<^verbatim>\<open>attributes\<close> is the column map as the list of its own
  keys and values in the order \<^verbatim>\<open>for ... in\<close> visits them (keys that are array
  indices first, in ascending order, then the others as they were inserted), and the
  loop runs over \<open>todo\<close>, what is left of it. The guard
  \<^verbatim>\<open>attributes.hasOwnProperty(attr)\<close> calls the inherited method, unless the map has a
  column of that name: then it calls a type string, which throws. The accumulator holds
  \<^verbatim>\<open>primaryKeys\<close>, \<^verbatim>\<open>foreignKeys\<close> and \<^verbatim>\<open>attrStr\<close>. Where the expression does not
  match, \<^verbatim>\<open>match[1]\<close> throws.
\<close>

fun walk_columns ::
  "env \<Rightarrow> (string \<times> string) list \<Rightarrow> (string \<times> string) list \<Rightarrow> string list
     \<Rightarrow> (string \<times> string) list \<Rightarrow> string list
     \<Rightarrow> error + string list \<times> (string \<times> string) list \<times> string list" where
  "walk_columns env attributes [] primaryKeys foreignKeys attrStr =
     Inr (primaryKeys, foreignKeys, attrStr)"
| "walk_columns env attributes ((attr, dataType) # todo) primaryKeys foreignKeys attrStr =
     (if map_of attributes ''hasOwnProperty'' \<noteq> None then
        Inl (TypeError ''attributes.hasOwnProperty is not a function'')
      else if includes_str dataType ''PRIMARY KEY'' then
        (if includes_str dataType ''REFERENCES'' then
           (case references_match dataType of
              None \<Rightarrow> Inl (TypeError ''Cannot read property 1 of null'')
            | Some (m1, m2) \<Rightarrow>
                walk_columns env attributes todo (primaryKeys @ [attr])
                  (assign_key attr m2 foreignKeys)
                  (attrStr @ [quoteIdentifier env (JStr attr) @ '' '' @ strip_primary_key m1]))
         else
           walk_columns env attributes todo (primaryKeys @ [attr]) foreignKeys
             (attrStr @ [quoteIdentifier env (JStr attr) @ '' '' @ strip_primary_key dataType]))
      else if includes_str dataType ''REFERENCES'' then
        (case references_match dataType of
           None \<Rightarrow> Inl (TypeError ''Cannot read property 1 of null'')
         | Some (m1, m2) \<Rightarrow>
             walk_columns env attributes todo primaryKeys (assign_key attr m2 foreignKeys)
               (attrStr @ [quoteIdentifier env (JStr attr) @ '' '' @ m1]))
      else
        walk_columns env attributes todo primaryKeys foreignKeys
          (attrStr @ [quoteIdentifier env (JStr attr) @ '' '' @ dataType]))"

text \<open>
  The options after \<^verbatim>\<open>_.extend({ engine: 'InnoDB', charset: null, rowFormat: null },
  options || {})\<close>, read by key.
\<close>

definition extended_option :: "jsval \<Rightarrow> string \<Rightarrow> jsval" where
  "extended_option options k =
     (case (case options of JObj kvs \<Rightarrow> map_of kvs k | _ \<Rightarrow> None) of
        Some v \<Rightarrow> v
      | None \<Rightarrow> (if k = ''engine'' then JStr ''InnoDB''
                 else if k = ''charset'' \<or> k = ''rowFormat'' then JNull
                 else JUndefined))"

text \<open>
  What \<^verbatim>\<open>_.each(options.uniqueKeys, (columns, indexName) => ...)\<close> visits. lodash
  walks an array-like value by index, from 0 to its \<^verbatim>\<open>length\<close>, reading
  \<^verbatim>\<open>collection[index]\<close> and passing the index as a number: an array, a string (by
  character), and also an object whose \<^verbatim>\<open>length\<close> is an integer from 0 to
  \<^verbatim>\<open>Number.MAX_SAFE_INTEGER\<close>. Any other object is walked by its own keys, passed
  as strings, and other values have nothing to visit. The callback returns nothing, so
  the walk is never cut short.
\<close>

definition isLength :: "jsval \<Rightarrow> bool" where
  "isLength v = (case v of JNum n \<Rightarrow> 0 \<le> n \<and> n \<le> 9007199254740991 | _ \<Rightarrow> False)"

definition each_entries :: "jsval \<Rightarrow> (jsval \<times> jsval) list" where
  "each_entries v =
     (case v of
        JArr vs \<Rightarrow> map (\<lambda>i. (vs ! i, JNum (int i))) [0..<length vs]
      | JStr s \<Rightarrow> map (\<lambda>i. (JStr [s ! i], JNum (int i))) [0..<length s]
      | JObj kvs \<Rightarrow>
          (case map_of kvs ''length'' of
             Some (JNum n) \<Rightarrow>
               if isLength (JNum n)
               then map (\<lambda>i. (field v (show_nat i), JNum (int i))) [0..<nat n]
               else map (\<lambda>(k, columns). (columns, JStr k)) kvs
           | _ \<Rightarrow> map (\<lambda>(k, columns). (columns, JStr k)) kvs)
      | _ \<Rightarrow> [])"

text \<open>The callback: what it appends to \<^verbatim>\<open>values.attributes\<close>.\<close>

definition unique_clause :: "env \<Rightarrow> jsval \<Rightarrow> jsval \<times> jsval \<Rightarrow> error + string" where
  "unique_clause env tableName entry =
     (case entry of (columns, indexName) \<Rightarrow>
        (case get_prop columns ''customIndex'' of
           Inl e \<Rightarrow> Inl e
         | Inr customIndex \<Rightarrow>
             if truthy customIndex then
               (case field columns ''fields'' of
                  JArr flds \<Rightarrow>
                    (let indexName' =
                           (if \<not> isString indexName
                            then JStr (''uniq_'' @ js_to_string tableName @ ''_''
                                       @ js_join ''_'' flds)
                            else indexName)
                     in Inr ('', UNIQUE '' @ quoteIdentifier env indexName' @ '' (''
                             @ join '', '' (map (quoteIdentifier env) flds) @ '')''))
                | _ \<Rightarrow> Inl (TypeError ''columns.fields.join is not a function''))
             else Inr []))"

fun unique_clauses :: "env \<Rightarrow> jsval \<Rightarrow> (jsval \<times> jsval) list \<Rightarrow> error + string" where
  "unique_clauses env tableName [] = Inr []"
| "unique_clauses env tableName (entry # rest) =
     (case unique_clause env tableName entry of
        Inl e \<Rightarrow> Inl e
      | Inr c \<Rightarrow>
          (case unique_clauses env tableName rest of
             Inl e \<Rightarrow> Inl e
           | Inr cs \<Rightarrow> Inr (c @ cs)))"

text \<open>
  What the template prints for a value: nothing for \<^verbatim>\<open>null\<close> and \<^verbatim>\<open>undefined\<close>. The
  template is filled with the default delimiters of lodash, under which
  \<^verbatim>\<open><%= name %>\<close> is plain interpolation.
\<close>

definition interpolate :: "jsval \<Rightarrow> string" where
  "interpolate v = (if v = JNull \<or> v = JUndefined then [] else js_to_string v)"

text \<open>The modifiers after the column list, in the order of the template.\<close>

definition table_modifiers :: "env \<Rightarrow> jsval \<Rightarrow> string" where
  "table_modifiers env options =
     interpolate (extended_option options ''engine'')
     @ (if truthy (extended_option options ''comment'')
           \<and> isString (extended_option options ''comment'')
        then '' COMMENT '' @ escape env (extended_option options ''comment'') else [])
     @ (if truthy (extended_option options ''charset'')
        then '' DEFAULT CHARSET='' @ js_to_string (extended_option options ''charset'') else [])
     @ (if truthy (extended_option options ''collate'')
        then '' COLLATE '' @ js_to_string (extended_option options ''collate'') else [])
     @ (if truthy (extended_option options ''initialAutoIncrement'')
        then '' AUTO_INCREMENT=''
             @ js_to_string (extended_option options ''initialAutoIncrement'') else [])
     @ (if truthy (extended_option options ''rowFormat'')
        then '' ROW_FORMAT='' @ js_to_string (extended_option options ''rowFormat'') else [])"

text \<open>\<^verbatim>\<open>createTableQuery(tableName, attributes, options)\<close>.\<close>

definition createTableQuery ::
  "env \<Rightarrow> jsval \<Rightarrow> (string \<times> string) list \<Rightarrow> jsval \<Rightarrow> error + string" where
  "createTableQuery env tableName attributes options =
     (case walk_columns env attributes attributes [] [] [] of
        Inl e \<Rightarrow> Inl e
      | Inr (primaryKeys, foreignKeys, attrStr) \<Rightarrow>
          (let pkString = join '', '' (map (\<lambda>pk. quoteIdentifier env (JStr pk)) primaryKeys)
           in case (if truthy (extended_option options ''uniqueKeys'')
                    then unique_clauses env tableName
                           (each_entries (extended_option options ''uniqueKeys''))
                    else Inr []) of
                Inl e \<Rightarrow> Inl e
              | Inr uniques \<Rightarrow>
                  Inr (trim (''CREATE TABLE IF NOT EXISTS '' @ quoteTable env tableName @ '' (''
                             @ join '', '' attrStr
                             @ uniques
                             @ (if pkString \<noteq> [] then '', PRIMARY KEY ('' @ pkString @ '')''
                                else [])
                             @ concat (map (\<lambda>(fkey, reference).
                                              '', FOREIGN KEY ('' @ quoteIdentifier env (JStr fkey)
                                              @ '') '' @ reference) foreignKeys)
                             @ '') ENGINE='' @ table_modifiers env options)
                       @ '';'')))"


subsection \<open>The rewriting of the dot notation, character by character\<close>









subsection \<open>The expressions of the dot notation, matched by hand\<close>



























subsection \<open>The dot notation as the specification words it\<close>
























section \<open>The other methods of the generator\<close>

subsection \<open>Statements without arguments\<close>





subsection \<open>Statements about one table\<close>






subsection \<open>deleteQuery\<close>


subsection \<open>changeColumnQuery and renameColumnQuery\<close>






subsection \<open>attributeToSQL, attributesToSQL and addColumnQuery\<close>










section \<open>Calls of the generator and what they leave behind\<close>






section \<open>The query interface\<close>

text \<open>
  The three functions of the first file run with \<^verbatim>\<open>this.QueryGenerator\<close> and
  \<^verbatim>\<open>this.sequelize\<close>. The generator they call is a record of the methods they use; the
  execution channel \<^verbatim>\<open>this.sequelize.query\<close> is a function from the statements
  submitted so far and the statement submitted now to what the promise settles with: an
  error, or the rows. A function of the query interface returns how its promise settles
  together with the statements submitted, in the order of the calls of
  \<^verbatim>\<open>this.sequelize.query\<close>. The options object each call hands on is left out: it
  never decides which statement comes next.
\<close>

type_synonym channel = "string list \<Rightarrow> string \<Rightarrow> error + jsval list"

record query_generator =
  gen_getForeignKeyQuery :: "jsval \<Rightarrow> jsval \<Rightarrow> error + string"
  gen_dropForeignKeyQuery :: "jsval \<Rightarrow> jsval \<Rightarrow> error + string"
  gen_removeColumnQuery :: "jsval \<Rightarrow> jsval \<Rightarrow> error + string"
  gen_showConstraintsQuery :: "jsval \<Rightarrow> jsval \<Rightarrow> error + string"
  gen_removeIndexQuery :: "jsval \<Rightarrow> jsval \<Rightarrow> error + string"
  gen_createFunction :: "jsval \<Rightarrow> jsval \<Rightarrow> jsval \<Rightarrow> jsval \<Rightarrow> jsval \<Rightarrow> jsval \<Rightarrow> error + string"

text \<open>The generator of the second file.\<close>

definition mysql_generator :: "env \<Rightarrow> query_generator" where
  "mysql_generator env =
     \<lparr> gen_getForeignKeyQuery = getForeignKeyQuery env,
       gen_dropForeignKeyQuery = dropForeignKeyQuery env,
       gen_removeColumnQuery = removeColumnQuery env,
       gen_showConstraintsQuery = showConstraintsQuery env,
       gen_removeIndexQuery = removeIndexQuery env,
       gen_createFunction = createFunction_sql \<rparr>"

definition query :: "channel \<Rightarrow> string list \<Rightarrow> string \<Rightarrow> (error + jsval list) \<times> string list" where
  "query chan log sql = (chan log sql, log @ [sql])"

text \<open>
  The table argument of the two introspection queries:
  \<^verbatim>\<open>tableName.tableName ? tableName : { tableName, schema: this.sequelize.config.database }\<close>.
\<close>

definition table_argument :: "jsval \<Rightarrow> jsval \<Rightarrow> error + jsval" where
  "table_argument database tableName =
     (case get_prop tableName ''tableName'' of
        Inl e \<Rightarrow> Inl e
      | Inr tn \<Rightarrow>
          Inr (if truthy tn then tableName
               else JObj [(''tableName'', tableName), (''schema'', database)]))"

subsection \<open>removeColumn\<close>

text \<open>
  \<^verbatim>\<open>Promise.map(results, constraint => this.sequelize.query(dropForeignKeyQuery(...)))\<close>:
  the mapper is called on the rows in order, so the drop statements are submitted in row
  order, each whether or not an earlier one will fail; the promise is rejected when one
  of them fails. A mapper that throws (a row that is \<^verbatim>\<open>null\<close>) rejects at once and
  ends the iteration. \<open>failed\<close> holds the rejection so far.
\<close>

fun dropConstraints ::
  "query_generator \<Rightarrow> channel \<Rightarrow> jsval \<Rightarrow> jsval list \<Rightarrow> string list \<Rightarrow> error option
     \<Rightarrow> error option \<times> string list" where
  "dropConstraints gen chan tableName [] log failed = (failed, log)"
| "dropConstraints gen chan tableName (constraint # rest) log failed =
     (case get_prop constraint ''constraint_name'' of
        Inl e \<Rightarrow> (Some e, log)
      | Inr constraint_name \<Rightarrow>
          (case gen_dropForeignKeyQuery gen tableName constraint_name of
             Inl e \<Rightarrow> (Some e, log)
           | Inr sql \<Rightarrow>
               (case query chan log sql of
                  (Inl e, log') \<Rightarrow>
                    dropConstraints gen chan tableName rest log'
                      (case failed of None \<Rightarrow> Some e | Some e0 \<Rightarrow> Some e0)
                | (Inr _, log') \<Rightarrow> dropConstraints gen chan tableName rest log' failed)))"

text \<open>
  The callback of \<^verbatim>\<open>.spread\<close>: nothing to do when there is no row or the first row is
  the constraint named PRIMARY, else the drops.
\<close>

definition dropForeignKeys ::
  "query_generator \<Rightarrow> channel \<Rightarrow> jsval \<Rightarrow> jsval list \<Rightarrow> string list
     \<Rightarrow> error option \<times> string list" where
  "dropForeignKeys gen chan tableName results log =
     (case results of
        [] \<Rightarrow> (None, log)
      | first # _ \<Rightarrow>
          (case get_prop first ''constraint_name'' of
             Inl e \<Rightarrow> (Some e, log)
           | Inr name \<Rightarrow>
               if name = JStr ''PRIMARY'' then (None, log)
               else dropConstraints gen chan tableName results log None))"

definition removeColumn ::
  "query_generator \<Rightarrow> jsval \<Rightarrow> channel \<Rightarrow> string list \<Rightarrow> jsval \<Rightarrow> jsval
     \<Rightarrow> (error + jsval list) \<times> string list" where
  "removeColumn gen database chan log tableName columnName =
     (case table_argument database tableName of
        Inl e \<Rightarrow> (Inl e, log)
      | Inr table \<Rightarrow>
          (case gen_getForeignKeyQuery gen table columnName of
             Inl e \<Rightarrow> (Inl e, log)
           | Inr sql \<Rightarrow>
               (case query chan log sql of
                  (Inl e, log1) \<Rightarrow> (Inl e, log1)
                | (Inr results, log1) \<Rightarrow>
                    (case dropForeignKeys gen chan tableName results log1 of
                       (Some e, log2) \<Rightarrow> (Inl e, log2)
                     | (None, log2) \<Rightarrow>
                         (case gen_removeColumnQuery gen tableName columnName of
                            Inl e \<Rightarrow> (Inl e, log2)
                          | Inr dropColumn \<Rightarrow> query chan log2 dropColumn)))))"

subsection \<open>removeConstraint\<close>

definition removeConstraint ::
  "query_generator \<Rightarrow> jsval \<Rightarrow> channel \<Rightarrow> string list \<Rightarrow> jsval \<Rightarrow> jsval
     \<Rightarrow> (error + jsval list) \<times> string list" where
  "removeConstraint gen database chan log tableName constraintName =
     (case table_argument database tableName of
        Inl e \<Rightarrow> (Inl e, log)
      | Inr table \<Rightarrow>
          (case gen_showConstraintsQuery gen table constraintName of
             Inl e \<Rightarrow> (Inl e, log)
           | Inr sql \<Rightarrow>
               (case query chan log sql of
                  (Inl e, log1) \<Rightarrow> (Inl e, log1)
                | (Inr constraints, log1) \<Rightarrow>
                    (let constraint = (case constraints of [] \<Rightarrow> JUndefined | c # _ \<Rightarrow> c)
                     in if truthy constraint \<and> truthy (field constraint ''constraintType'')
                        then
                          (case (if field constraint ''constraintType'' = JStr ''FOREIGN KEY''
                                 then gen_dropForeignKeyQuery gen tableName constraintName
                                 else gen_removeIndexQuery gen (field constraint ''tableName'')
                                        (field constraint ''constraintName'')) of
                             Inl e \<Rightarrow> (Inl e, log1)
                           | Inr q \<Rightarrow> query chan log1 q)
                        else
                          (Inl (UnknownConstraintError
                                  (''Constraint '' @ js_to_string constraintName
                                   @ '' on table '' @ js_to_string tableName
                                   @ '' does not exist'')
                                  constraintName tableName),
                           log1)))))"

subsection \<open>createFunction\<close>

definition delimiter :: string where
  "delimiter = ''__END_FUNCTION__''"

text \<open>
  The promise of \<^verbatim>\<open>createFunction\<close> settles with the rows of the last statement, or
  with \<^verbatim>\<open>undefined\<close> (\<open>None\<close>) when the generator's text is empty and nothing is
  submitted.
\<close>

definition createFunction ::
  "query_generator \<Rightarrow> channel \<Rightarrow> string list
     \<Rightarrow> jsval \<Rightarrow> jsval \<Rightarrow> jsval \<Rightarrow> jsval \<Rightarrow> jsval \<Rightarrow> jsval
     \<Rightarrow> (error + jsval list option) \<times> string list" where
  "createFunction gen chan log functionName params returnType language body optionsArray =
     (case gen_createFunction gen functionName params returnType language body optionsArray of
        Inl e \<Rightarrow> (Inl e, log)
      | Inr functionSql \<Rightarrow>
          if functionSql \<noteq> [] then
            (case query chan log (''DELIMITER '' @ delimiter @ '';'') of
               (Inl e, log1) \<Rightarrow> (Inl e, log1)
             | (Inr _, log1) \<Rightarrow>
                 (case query chan log1 (functionSql @ [CHR 0x0A] @ delimiter) of
                    (Inl e, log2) \<Rightarrow> (Inl e, log2)
                  | (Inr _, log2) \<Rightarrow>
                      (case query chan log2 ''DELIMITER ;'' of
                         (Inl e, log3) \<Rightarrow> (Inl e, log3)
                       | (Inr rows, log3) \<Rightarrow> (Inr (Some rows), log3))))
          else (Inr None, log))"

subsection \<open>An instance for running the model\<close>

text \<open>
  To evaluate the model at concrete inputs the inherited primitives need values. This
  instance quotes with back ticks and single quotes and escapes nothing, which is what
  the library's primitives do on names and texts that hold no quote character; its
  \<^verbatim>\<open>insertQuery\<close> and inherited \<^verbatim>\<open>handleSequelizeMethod\<close> are stand-ins that read
  their arguments and change nothing.
\<close>

definition plain_env :: env where
  "plain_env =
     \<lparr> quoteIdentifier = (\<lambda>v. [CHR 0x60] @ js_to_string v @ [CHR 0x60]),
       quoteTable = (\<lambda>v. [CHR 0x60] @ js_to_string v @ [CHR 0x60]),
       escape = (\<lambda>v. case v of JStr s \<Rightarrow> [CHR 0x27] @ s @ [CHR 0x27] | _ \<Rightarrow> js_to_string v),
       wrapSingleQuote = (\<lambda>v. [CHR 0x27] @ js_to_string v @ [CHR 0x27]),
       underscore = (\<lambda>s. s),
       defaultValueSchemable = (\<lambda>v. v \<noteq> JUndefined),
       addSchema = (\<lambda>v. field v ''tableName''),
       typeToString = (\<lambda>v. js_to_string (field v ''key'')),
       parseConditionObject = (\<lambda>v. []),
       getWhereConditions = (\<lambda>whereArg model options.
          (Inr (case whereArg of JStr s \<Rightarrow> JStr s | _ \<Rightarrow> JStr []), whereArg, model, options)),
       insertQuery = (\<lambda>tableName insertValues rawAttributes options.
          (Inr (''INSERT INTO '' @ js_to_string tableName @ '' ... ON DUPLICATE KEY ''
                @ js_to_string (field (JObj options) ''onDuplicate'')), options)),
       super_handleSequelizeMethod = (\<lambda>s. case s of
            Cast v t j \<Rightarrow> (Inr (''CAST(... AS '' @ toUpperCase t @ '')''), s)
          | _ \<Rightarrow> (Inr [], s)) \<rparr>"

text \<open>
  A channel that answers the statements in the order they arrive from a fixed list of
  answers, and with no rows once the list is used up.
\<close>

definition scripted_channel :: "(error + jsval list) list \<Rightarrow> channel" where
  "scripted_channel answers log sql =
     (if length log < length answers then answers ! length log else Inr [])"

text \<open>A generator whose \<^verbatim>\<open>createFunction\<close> returns the empty text.\<close>

definition silent_generator :: query_generator where
  "silent_generator =
     (mysql_generator plain_env)
       \<lparr> gen_createFunction := (\<lambda>functionName params returnType language body options. Inr []) \<rparr>"

lemma createFunction_sql_example:
  "createFunction_sql (JStr ''f'') (JArr []) (JStr ''int'') (JStr ''sql'') (JStr ''return 1;'') JNull
    = Inr (''CREATE FUNCTION f()'' @ [CHR 0x0A] @ ''        RETURNS int'' @ [CHR 0x0A]
           @ ''        '' @ [CHR 0x0A] @ ''      BEGIN'' @ [CHR 0x0A]
           @ ''        return 1;'' @ [CHR 0x0A] @ ''      END;'')"
  by code_simp


text \<open>The introspection query for the constraints of table \<open>t\<close> in database \<open>db\<close>.\<close>

definition constraints_query_t :: "jsval \<Rightarrow> string" where
  "constraints_query_t constraintName =
     (case showConstraintsQuery plain_env
             (JObj [(''tableName'', JStr ''t''), (''schema'', JStr ''db'')]) constraintName of
        Inr sql \<Rightarrow> sql | Inl e \<Rightarrow> [])"

lemma constraints_query_t:
  "gen_showConstraintsQuery (mysql_generator plain_env)
     (JObj [(''tableName'', JStr ''t''), (''schema'', JStr ''db'')]) constraintName
   = Inr (constraints_query_t constraintName)"
  by (simp add: mysql_generator_def showConstraintsQuery_def constraints_query_t_def
      get_prop_def Let_def)

lemma table_argument_t:
  "table_argument (JStr ''db'') (JStr ''t'')
     = Inr (JObj [(''tableName'', JStr ''t''), (''schema'', JStr ''db'')])"
  by (simp add: table_argument_def get_prop_def)


subsection \<open>What the calls leave behind\<close>











section \<open>The claims\<close>

text \<open>
  Claim C4. After the tokenizer has scanned a string, it raises the parse failure
  \<^verbatim>\<open>Invalid json statement: <text>\<close> exactly when the expression is invalid (the
  counts of the opening and closing parentheses consumed as generic tokens differ, or a
  semicolon was consumed) and a JSON construct (a function name or an operator) was
  recorded; otherwise it returns whether a JSON construct was recorded. A consumed
  semicolon is the last token of the scan, and the loop of the source leaves with
  \<^verbatim>\<open>hasInvalidToken\<close> set and the counters as they were at the step that reads it.
\<close>

theorem tokenizer_verdict:
  "checkValidJsonStatement (JStr stmt) =
     (if (parens_unbalanced (tokens stmt 0) \<or> semicolon_consumed (tokens stmt 0))
          \<and> json_recorded (tokens stmt 0)
      then Inl (Error (''Invalid json statement: '' @ stmt))
      else Inr (json_recorded (tokens stmt 0)))
   \<and> (semicolon_consumed (tokens stmt 0) \<longrightarrow>
        last (tokens stmt 0) = GenericToken '';'' \<and>
        GenericToken '';'' \<notin> set (butlast (tokens stmt 0)))
   \<and> (\<forall>i ob cb hj m.
        i < length stmt \<and> exec_start jsonFunctionRegex (drop i stmt) = None \<and>
        exec_start jsonOperatorRegex (drop i stmt) = None \<and>
        tokenCaptureRegex (drop i stmt) = Some (m, '';'') \<longrightarrow>
        scan stmt i ob cb hj = (ob, cb, hj, True))"
proof (intro conjI)
  show "checkValidJsonStatement (JStr stmt) =
     (if (parens_unbalanced (tokens stmt 0) \<or> semicolon_consumed (tokens stmt 0))
          \<and> json_recorded (tokens stmt 0)
      then Inl (Error (''Invalid json statement: '' @ stmt))
      else Inr (json_recorded (tokens stmt 0)))"
    by (auto simp: checkValidJsonStatement_def scan_tokens parens_unbalanced_def)
next
  show "semicolon_consumed (tokens stmt 0) \<longrightarrow>
        last (tokens stmt 0) = GenericToken '';'' \<and>
        GenericToken '';'' \<notin> set (butlast (tokens stmt 0))"
    using tokens_semicolon_last [of stmt 0] by (simp add: semicolon_consumed_def)
next
  show "\<forall>i ob cb hj m.
        i < length stmt \<and> exec_start jsonFunctionRegex (drop i stmt) = None \<and>
        exec_start jsonOperatorRegex (drop i stmt) = None \<and>
        tokenCaptureRegex (drop i stmt) = Some (m, '';'') \<longrightarrow>
        scan stmt i ob cb hj = (ob, cb, hj, True)"
    using scan_semicolon_stops by blast
qed

theorem tokenizer_verdict_witness:
  "semicolon_consumed (tokens ''json(a);b('' 0)
   \<and> (7::nat) < length ''json(a);b(''
   \<and> exec_start jsonFunctionRegex (drop 7 ''json(a);b('') = None
   \<and> exec_start jsonOperatorRegex (drop 7 ''json(a);b('') = None
   \<and> tokenCaptureRegex (drop 7 ''json(a);b('') = Some ('';'', '';'')
   \<and> checkValidJsonStatement (JStr ''json(a);b('') =
        Inl (Error ''Invalid json statement: json(a);b('')
   \<and> last (tokens ''json(a);b('' 0) = GenericToken '';''
   \<and> scan ''json(a);b('' 7 1 1 True = (1, 1, True, True)"
proof -
  have ts: "tokens ''json(a);b('' 0 =
     [JsonFunctionName, GenericToken ''('', GenericToken ''a'', GenericToken '')'',
      GenericToken '';'']"
    by code_simp
  have len: "(7::nat) < length ''json(a);b(''" by simp
  have f: "exec_start jsonFunctionRegex (drop 7 ''json(a);b('') = None" by code_simp
  have op: "exec_start jsonOperatorRegex (drop 7 ''json(a);b('') = None" by code_simp
  have tk: "tokenCaptureRegex (drop 7 ''json(a);b('') = Some ('';'', '';'')" by code_simp
  have sc: "semicolon_consumed (tokens ''json(a);b('' 0)"
    by (simp add: ts semicolon_consumed_def)
  note v = tokenizer_verdict [of "''json(a);b(''"]
  from v have v1: "checkValidJsonStatement (JStr ''json(a);b('') =
        Inl (Error ''Invalid json statement: json(a);b('')"
    by (simp add: ts json_recorded_def semicolon_consumed_def parens_unbalanced_def)
  from v sc have v2: "last (tokens ''json(a);b('' 0) = GenericToken '';''"
    by blast
  from v len f op tk have v3: "scan ''json(a);b('' 7 1 1 True = (1, 1, True, True)"
    by blast
  from sc len f op tk v1 v2 v3 show ?thesis by blast
qed

text \<open>
  Claim C10. For every input that is not a string (a number, an object, an array, a
  boolean, \<^verbatim>\<open>null\<close>, \<^verbatim>\<open>undefined\<close>) the tokenizer returns \<^verbatim>\<open>false\<close>, whatever the
  input holds, and does not raise.
\<close>

theorem tokenizer_non_string:
  "\<not> isString stmt \<Longrightarrow> checkValidJsonStatement stmt = Inr False"
  by (cases stmt) (simp_all add: checkValidJsonStatement_def)

theorem tokenizer_non_string_witness:
  "\<not> isString (JNum 42) \<and> \<not> isString JNull \<and> \<not> isString JUndefined
   \<and> \<not> isString (JObj [(''path'', JStr ''json(;'')])
   \<and> checkValidJsonStatement (JNum 42) = Inr False
   \<and> checkValidJsonStatement JNull = Inr False
   \<and> checkValidJsonStatement JUndefined = Inr False
   \<and> checkValidJsonStatement (JObj [(''path'', JStr ''json(;'')]) = Inr False"
  using tokenizer_non_string [of "JNum 42"] tokenizer_non_string [of JNull]
    tokenizer_non_string [of JUndefined]
    tokenizer_non_string [of "JObj [(''path'', JStr ''json(;'')]"]
  by simp

text \<open>
  Claim C9. \<^verbatim>\<open>renameFunction\<close> raises for every input, with a message that names the
  operation; it returns no text, and as a method of the generator it submits nothing.
\<close>

theorem renameFunction_always_fails:
  "renameFunction oldFunctionName params newFunctionName =
     Inl (Error (''The method '' @ [CHR 0x22] @ ''renameFunction'' @ [CHR 0x22]
                  @ '' is not defined for mysql dialect.''))"
  by (simp add: renameFunction_def throwMethodUndefined_def)

text \<open>
  Claim C6, amended. \<^verbatim>\<open>expandFunctionParamList\<close> raises, producing no output, whenever
  its argument is not an array or any entry lacks a type: the error of the missing array
  in the first case, and in the second the error of the parameter without a type
  provided every direction that is present is a string (a direction of another kind
  makes \<^verbatim>\<open>toUpperCase\<close> fail first). For every parameter list in which every entry
  has a type that is a non-empty string, and a direction only if it is a string, the
  number of parameters in the output equals the number of entries, the direction is
  left out exactly when it is absent or reads IN in any letter case, and the name is
  included exactly when present. An entry whose text would be empty is dropped by the
  guard \<^verbatim>\<open>if (joined)\<close>, which is why the type must not be the empty string.
\<close>

theorem expandFunctionParamList_amended:
  "(\<not> (\<exists>ps. params = JArr ps) \<longrightarrow>
      expandFunctionParamList params =
        Inl (Error (''expandFunctionParamList: function parameters array required, ''
                    @ ''including an empty one for no arguments'')))
   \<and> ((\<exists>p \<in> set ps. \<not> has p ''type'') \<longrightarrow>
        (\<exists>e. expandFunctionParamList (JArr ps) = Inl e)
        \<and> ((\<forall>p \<in> set ps. direction_is_text p) \<longrightarrow>
             expandFunctionParamList (JArr ps) =
               Inl (Error ''function or trigger used with a parameter without any type'')))
   \<and> ((\<forall>p \<in> set ps. has p ''type'' \<and> type_is_text p \<and> direction_is_text p) \<longrightarrow>
        expandParams ps [] = Inr (map param_text ps)
        \<and> length (map param_text ps) = length ps
        \<and> expandFunctionParamList (JArr ps) = Inr (join '', '' (map param_text ps)))"
proof (intro conjI impI)
  assume "\<not> (\<exists>ps. params = JArr ps)"
  then show "expandFunctionParamList params =
        Inl (Error (''expandFunctionParamList: function parameters array required, ''
                    @ ''including an empty one for no arguments''))"
    by (cases params) (simp_all add: expandFunctionParamList_def)
next
  assume "\<exists>p \<in> set ps. \<not> has p ''type''"
  from expandParams_raises [OF this, of "[]"]
  show "\<exists>e. expandFunctionParamList (JArr ps) = Inl e"
    by (auto simp: expandFunctionParamList_def)
next
  assume "\<exists>p \<in> set ps. \<not> has p ''type''" and "\<forall>p \<in> set ps. direction_is_text p"
  from expandParams_untyped [OF this, of "[]"]
  show "expandFunctionParamList (JArr ps) =
               Inl (Error ''function or trigger used with a parameter without any type'')"
    by (simp add: expandFunctionParamList_def)
next
  assume a: "\<forall>p \<in> set ps. has p ''type'' \<and> type_is_text p \<and> direction_is_text p"
  then have ne: "\<forall>p \<in> set ps. param_text p \<noteq> []"
    by (simp add: type_is_text_nonempty)
  then have f: "filter (\<lambda>t. t \<noteq> []) (map param_text ps) = map param_text ps"
    by (simp add: filter_id_conv)
  from a have "\<forall>p \<in> set ps. has p ''type'' \<and> direction_is_text p" by simp
  from expandParams_typed [OF this, of "[]"] f
  show e: "expandParams ps [] = Inr (map param_text ps)" by simp
  show "length (map param_text ps) = length ps" by simp
  from e show "expandFunctionParamList (JArr ps) = Inr (join '', '' (map param_text ps))"
    by (simp add: expandFunctionParamList_def)
qed

theorem expandFunctionParamList_amended_witness:
  "expandFunctionParamList JNull =
        Inl (Error (''expandFunctionParamList: function parameters array required, ''
                    @ ''including an empty one for no arguments''))
   \<and> expandFunctionParamList (JArr [JObj [(''name'', JStr ''x'')]]) =
        Inl (Error ''function or trigger used with a parameter without any type'')
   \<and> expandParams
         [JObj [(''type'', JStr ''varchar''), (''name'', JStr ''test'')],
          JObj [(''type'', JStr ''int''), (''direction'', JStr ''out'')],
          JObj [(''type'', JStr ''int''), (''direction'', JStr ''in'')]] [] =
        Inr [''test varchar'', ''out int'', ''int'']
   \<and> expandFunctionParamList (JArr
         [JObj [(''type'', JStr ''varchar''), (''name'', JStr ''test'')],
          JObj [(''type'', JStr ''int''), (''direction'', JStr ''out'')],
          JObj [(''type'', JStr ''int''), (''direction'', JStr ''in'')]]) =
        Inr ''test varchar, out int, int''"
proof -
  let ?ps = "[JObj [(''type'', JStr ''varchar''), (''name'', JStr ''test'')],
          JObj [(''type'', JStr ''int''), (''direction'', JStr ''out'')],
          JObj [(''type'', JStr ''int''), (''direction'', JStr ''in'')]]"
  have h1: "\<not> (\<exists>ps. JNull = JArr ps)" by simp
  have h2: "\<exists>p \<in> set [JObj [(''name'', JStr ''x'')]]. \<not> has p ''type''" by simp
  have h3: "\<forall>p \<in> set [JObj [(''name'', JStr ''x'')]]. direction_is_text p"
    by (simp add: direction_is_text_def)
  have h4: "\<forall>p \<in> set ?ps. has p ''type'' \<and> type_is_text p \<and> direction_is_text p"
    by (simp add: type_is_text_def direction_is_text_def)
  have t: "map param_text ?ps = [''test varchar'', ''out int'', ''int'']"
    by code_simp
  from expandFunctionParamList_amended [of JNull "[]"] h1
  have c1: "expandFunctionParamList JNull =
        Inl (Error (''expandFunctionParamList: function parameters array required, ''
                    @ ''including an empty one for no arguments''))"
    by blast
  from expandFunctionParamList_amended [of JNull "[JObj [(''name'', JStr ''x'')]]"] h2 h3
  have c2: "expandFunctionParamList (JArr [JObj [(''name'', JStr ''x'')]]) =
        Inl (Error ''function or trigger used with a parameter without any type'')"
    by blast
  from expandFunctionParamList_amended [of JNull ?ps] h4
  have c3: "expandParams ?ps [] = Inr (map param_text ?ps)"
    and c4: "expandFunctionParamList (JArr ?ps) = Inr (join '', '' (map param_text ?ps))"
    by blast+
  from c1 c2 c3 c4 show ?thesis unfolding t by simp
qed

text \<open>
  Claim C6 as stated fails at the one-entry list whose entry has the empty string as
  its type: the entry has a type, and the output holds no parameter.
\<close>

theorem expandFunctionParamList_counterexample:
  "has (JObj [(''type'', JStr [])]) ''type''
   \<and> expandParams [JObj [(''type'', JStr [])]] [] = Inr []
   \<and> expandFunctionParamList (JArr [JObj [(''type'', JStr [])]]) = Inr []
   \<and> length ([] :: string list) \<noteq> length [JObj [(''type'', JStr [])]]"
  by (simp add: expandFunctionParamList_def paramDef_def js_join_def Let_def)

text \<open>
  Claim C3. \<^verbatim>\<open>createFunction\<close> of the query interface submits, in this order, the
  switch of the delimiter, the generated text closed by the delimiter, and the restoring
  of the delimiter, through the one channel it is given. When a step fails no later
  step is submitted and the promise is rejected with the error of that step: after a
  failing second step the third statement is never submitted. When the generator throws,
  nothing is submitted and its error is thrown. When the generator returns the empty
  text, nothing is submitted and the promise is fulfilled.
\<close>

theorem createFunction_steps:
  "(gen_createFunction gen functionName params returnType language body optionsArray = Inl e \<longrightarrow>
      createFunction gen chan log functionName params returnType language body optionsArray =
        (Inl e, log))
   \<and> (gen_createFunction gen functionName params returnType language body optionsArray = Inr [] \<longrightarrow>
      createFunction gen chan log functionName params returnType language body optionsArray =
        (Inr None, log))
   \<and> (gen_createFunction gen functionName params returnType language body optionsArray =
         Inr functionSql \<and> functionSql \<noteq> [] \<longrightarrow>
       (let step1 = ''DELIMITER __END_FUNCTION__;'';
            step2 = functionSql @ [CHR 0x0A] @ ''__END_FUNCTION__'';
            step3 = ''DELIMITER ;'';
            outcome = createFunction gen chan log functionName params returnType language
                        body optionsArray
        in (\<forall>e1. chan log step1 = Inl e1 \<longrightarrow> outcome = (Inl e1, log @ [step1]))
         \<and> (\<forall>r1 e2. chan log step1 = Inr r1 \<and> chan (log @ [step1]) step2 = Inl e2 \<longrightarrow>
               outcome = (Inl e2, log @ [step1, step2]))
         \<and> (\<forall>r1 r2 e3. chan log step1 = Inr r1 \<and> chan (log @ [step1]) step2 = Inr r2 \<and>
               chan (log @ [step1, step2]) step3 = Inl e3 \<longrightarrow>
               outcome = (Inl e3, log @ [step1, step2, step3]))
         \<and> (\<forall>r1 r2 r3. chan log step1 = Inr r1 \<and> chan (log @ [step1]) step2 = Inr r2 \<and>
               chan (log @ [step1, step2]) step3 = Inr r3 \<longrightarrow>
               outcome = (Inr (Some r3), log @ [step1, step2, step3]))))"
  by (simp add: createFunction_def query_def delimiter_def Let_def)

theorem createFunction_steps_witness:
  "createFunction silent_generator (scripted_channel []) []
      (JStr ''f'') (JArr []) (JStr ''int'') (JStr ''sql'') (JStr ''return 1;'') JNull
     = (Inr None, [])
   \<and> createFunction (mysql_generator plain_env) (scripted_channel []) []
      JNull (JArr []) (JStr ''int'') (JStr ''sql'') (JStr ''return 1;'') JNull
     = (Inl (Error (''createFunction missing some parameters. ''
                    @ ''Did you pass functionName, returnType, language and body?'')), [])
   \<and> createFunction (mysql_generator plain_env)
        (scripted_channel [Inl (ExecutionError ''no delimiter'')]) []
        (JStr ''f'') (JArr []) (JStr ''int'') (JStr ''sql'') (JStr ''return 1;'') JNull
     = (Inl (ExecutionError ''no delimiter''), [''DELIMITER __END_FUNCTION__;''])
   \<and> createFunction (mysql_generator plain_env)
        (scripted_channel [Inr [], Inl (ExecutionError ''syntax'')]) []
        (JStr ''f'') (JArr []) (JStr ''int'') (JStr ''sql'') (JStr ''return 1;'') JNull
     = (Inl (ExecutionError ''syntax''),
        [''DELIMITER __END_FUNCTION__;'',
         ''CREATE FUNCTION f()'' @ [CHR 0x0A] @ ''        RETURNS int'' @ [CHR 0x0A]
           @ ''        '' @ [CHR 0x0A] @ ''      BEGIN'' @ [CHR 0x0A]
           @ ''        return 1;'' @ [CHR 0x0A] @ ''      END;'' @ [CHR 0x0A]
           @ ''__END_FUNCTION__''])
   \<and> createFunction (mysql_generator plain_env)
        (scripted_channel [Inr [], Inr [], Inl (ExecutionError ''lost'')]) []
        (JStr ''f'') (JArr []) (JStr ''int'') (JStr ''sql'') (JStr ''return 1;'') JNull
     = (Inl (ExecutionError ''lost''),
        [''DELIMITER __END_FUNCTION__;'',
         ''CREATE FUNCTION f()'' @ [CHR 0x0A] @ ''        RETURNS int'' @ [CHR 0x0A]
           @ ''        '' @ [CHR 0x0A] @ ''      BEGIN'' @ [CHR 0x0A]
           @ ''        return 1;'' @ [CHR 0x0A] @ ''      END;'' @ [CHR 0x0A]
           @ ''__END_FUNCTION__'',
         ''DELIMITER ;''])
   \<and> createFunction (mysql_generator plain_env) (scripted_channel []) []
        (JStr ''f'') (JArr []) (JStr ''int'') (JStr ''sql'') (JStr ''return 1;'') JNull
     = (Inr (Some []),
        [''DELIMITER __END_FUNCTION__;'',
         ''CREATE FUNCTION f()'' @ [CHR 0x0A] @ ''        RETURNS int'' @ [CHR 0x0A]
           @ ''        '' @ [CHR 0x0A] @ ''      BEGIN'' @ [CHR 0x0A]
           @ ''        return 1;'' @ [CHR 0x0A] @ ''      END;'' @ [CHR 0x0A]
           @ ''__END_FUNCTION__'',
         ''DELIMITER ;''])"
proof -
  let ?sql = "''CREATE FUNCTION f()'' @ [CHR 0x0A] @ ''        RETURNS int'' @ [CHR 0x0A]
           @ ''        '' @ [CHR 0x0A] @ ''      BEGIN'' @ [CHR 0x0A]
           @ ''        return 1;'' @ [CHR 0x0A] @ ''      END;''"
  have g: "gen_createFunction (mysql_generator plain_env) (JStr ''f'') (JArr []) (JStr ''int'')
             (JStr ''sql'') (JStr ''return 1;'') JNull = Inr ?sql"
    using createFunction_sql_example by (simp add: mysql_generator_def)
  have g0: "gen_createFunction (mysql_generator plain_env) JNull (JArr []) (JStr ''int'')
             (JStr ''sql'') (JStr ''return 1;'') JNull =
            Inl (Error (''createFunction missing some parameters. ''
                    @ ''Did you pass functionName, returnType, language and body?''))"
    by (simp add: mysql_generator_def createFunction_sql_def)
  have s: "gen_createFunction silent_generator (JStr ''f'') (JArr []) (JStr ''int'')
             (JStr ''sql'') (JStr ''return 1;'') JNull = Inr []"
    by (simp add: silent_generator_def)
  have ne: "?sql \<noteq> []" by simp
  note t = createFunction_steps [where log = "[]" and functionName = "JStr ''f''"
      and params = "JArr []" and returnType = "JStr ''int''" and language = "JStr ''sql''"
      and body = "JStr ''return 1;''" and optionsArray = JNull]
  have c1: "createFunction silent_generator (scripted_channel []) []
      (JStr ''f'') (JArr []) (JStr ''int'') (JStr ''sql'') (JStr ''return 1;'') JNull
     = (Inr None, [])"
    using t [where gen = silent_generator and chan = "scripted_channel []"] s by blast
  have c2: "createFunction (mysql_generator plain_env) (scripted_channel []) []
      JNull (JArr []) (JStr ''int'') (JStr ''sql'') (JStr ''return 1;'') JNull
     = (Inl (Error (''createFunction missing some parameters. ''
                    @ ''Did you pass functionName, returnType, language and body?'')), [])"
    using createFunction_steps [where gen = "mysql_generator plain_env" and log = "[]"
        and functionName = JNull and params = "JArr []" and returnType = "JStr ''int''"
        and language = "JStr ''sql''" and body = "JStr ''return 1;''"
        and optionsArray = JNull and chan = "scripted_channel []"] g0
    by blast
  have c3: "createFunction (mysql_generator plain_env)
        (scripted_channel [Inl (ExecutionError ''no delimiter'')]) []
        (JStr ''f'') (JArr []) (JStr ''int'') (JStr ''sql'') (JStr ''return 1;'') JNull
     = (Inl (ExecutionError ''no delimiter''), [''DELIMITER __END_FUNCTION__;''])"
    using t [where gen = "mysql_generator plain_env" and functionSql = ?sql
        and chan = "scripted_channel [Inl (ExecutionError ''no delimiter'')]"] g ne
    by (simp add: Let_def scripted_channel_def)
  have c4: "createFunction (mysql_generator plain_env)
        (scripted_channel [Inr [], Inl (ExecutionError ''syntax'')]) []
        (JStr ''f'') (JArr []) (JStr ''int'') (JStr ''sql'') (JStr ''return 1;'') JNull
     = (Inl (ExecutionError ''syntax''),
        [''DELIMITER __END_FUNCTION__;'', ?sql @ [CHR 0x0A] @ ''__END_FUNCTION__''])"
    using t [where gen = "mysql_generator plain_env" and functionSql = ?sql
        and chan = "scripted_channel [Inr [], Inl (ExecutionError ''syntax'')]"] g ne
    by (simp add: Let_def scripted_channel_def)
  have c5: "createFunction (mysql_generator plain_env)
        (scripted_channel [Inr [], Inr [], Inl (ExecutionError ''lost'')]) []
        (JStr ''f'') (JArr []) (JStr ''int'') (JStr ''sql'') (JStr ''return 1;'') JNull
     = (Inl (ExecutionError ''lost''),
        [''DELIMITER __END_FUNCTION__;'', ?sql @ [CHR 0x0A] @ ''__END_FUNCTION__'',
         ''DELIMITER ;''])"
    using t [where gen = "mysql_generator plain_env" and functionSql = ?sql
        and chan = "scripted_channel [Inr [], Inr [], Inl (ExecutionError ''lost'')]"] g ne
    by (simp add: Let_def scripted_channel_def)
  have c6: "createFunction (mysql_generator plain_env) (scripted_channel []) []
        (JStr ''f'') (JArr []) (JStr ''int'') (JStr ''sql'') (JStr ''return 1;'') JNull
     = (Inr (Some []),
        [''DELIMITER __END_FUNCTION__;'', ?sql @ [CHR 0x0A] @ ''__END_FUNCTION__'',
         ''DELIMITER ;''])"
    using t [where gen = "mysql_generator plain_env" and functionSql = ?sql
        and chan = "scripted_channel []"] g ne
    by (simp add: Let_def scripted_channel_def)
  from c1 c2 c3 c4 c5 c6 show ?thesis by simp
qed

text \<open>
  Claim C1. The claim asks that every row named PRIMARY be left out and every other row
  get its drop statement before the column is removed. The source announces the
  exclusion (\<^verbatim>\<open>//Exclude primary key constraint\<close>) and tests the first row only:
  with the rows PRIMARY, fk_a, fk_b it submits the introspection query and the removal of
  the column and no drop of a foreign key, and with the rows fk_a, PRIMARY it submits a
  drop of a foreign key named PRIMARY.
\<close>

theorem removeColumn_primary_first:
  "fst (removeColumn (mysql_generator plain_env) (JStr ''db'')
          (scripted_channel
             [Inr [JObj [(''constraint_name'', JStr ''PRIMARY'')],
                   JObj [(''constraint_name'', JStr ''fk_a'')],
                   JObj [(''constraint_name'', JStr ''fk_b'')]]])
          [] (JStr ''t'') (JStr ''c'')) = Inr []
   \<and> Inr (hd (snd (removeColumn (mysql_generator plain_env) (JStr ''db'')
          (scripted_channel
             [Inr [JObj [(''constraint_name'', JStr ''PRIMARY'')],
                   JObj [(''constraint_name'', JStr ''fk_a'')],
                   JObj [(''constraint_name'', JStr ''fk_b'')]]])
          [] (JStr ''t'') (JStr ''c''))))
       = getForeignKeyQuery plain_env
           (JObj [(''tableName'', JStr ''t''), (''schema'', JStr ''db'')]) (JStr ''c'')
   \<and> tl (snd (removeColumn (mysql_generator plain_env) (JStr ''db'')
          (scripted_channel
             [Inr [JObj [(''constraint_name'', JStr ''PRIMARY'')],
                   JObj [(''constraint_name'', JStr ''fk_a'')],
                   JObj [(''constraint_name'', JStr ''fk_b'')]]])
          [] (JStr ''t'') (JStr ''c''))) = [''ALTER TABLE `t` DROP `c`;'']
   \<and> tl (snd (removeColumn (mysql_generator plain_env) (JStr ''db'')
          (scripted_channel
             [Inr [JObj [(''constraint_name'', JStr ''fk_a'')],
                   JObj [(''constraint_name'', JStr ''PRIMARY'')]]])
          [] (JStr ''t'') (JStr ''c''))) =
        [''ALTER TABLE `t` DROP FOREIGN KEY `fk_a`;'',
         ''ALTER TABLE `t` DROP FOREIGN KEY `PRIMARY`;'',
         ''ALTER TABLE `t` DROP `c`;'']"
  by code_simp

text \<open>
  Claim C5, amended. \<^verbatim>\<open>removeConstraint\<close> submits the constraints query and looks at
  the first row. When there is no row, or the first row has no kind (the guard
  \<^verbatim>\<open>constraint && constraint.constraintType\<close>: a kind that is absent, null or the empty
  string), it raises the unknown-constraint error carrying the constraint name and the
  table, and submits nothing more. When the kind is FOREIGN KEY it submits the drop of
  the foreign key, for the table and the constraint name it was called with. For every
  other kind it submits the drop of the index named by the table and the name of the
  returned row.
\<close>

theorem removeConstraint_amended:
  "table_argument database tableName = Inr table \<and>
   gen_showConstraintsQuery gen table constraintName = Inr sql \<and>
   chan log sql = Inr constraints \<longrightarrow>
   (let constraint = (case constraints of [] \<Rightarrow> JUndefined | c # _ \<Rightarrow> c);
        kind = field constraint ''constraintType'';
        outcome = removeConstraint gen database chan log tableName constraintName
    in (constraints = [] \<or> \<not> truthy constraint \<or> \<not> truthy kind \<longrightarrow>
          outcome =
            (Inl (UnknownConstraintError
                    (''Constraint '' @ js_to_string constraintName @ '' on table ''
                     @ js_to_string tableName @ '' does not exist'')
                    constraintName tableName),
             log @ [sql]))
     \<and> (\<forall>q. truthy constraint \<and> kind = JStr ''FOREIGN KEY'' \<and>
             gen_dropForeignKeyQuery gen tableName constraintName = Inr q \<longrightarrow>
             outcome = (chan (log @ [sql]) q, log @ [sql, q]))
     \<and> (\<forall>q. truthy constraint \<and> truthy kind \<and> kind \<noteq> JStr ''FOREIGN KEY'' \<and>
             gen_removeIndexQuery gen (field constraint ''tableName'')
               (field constraint ''constraintName'') = Inr q \<longrightarrow>
             outcome = (chan (log @ [sql]) q, log @ [sql, q])))"
  by (cases constraints) (auto simp: removeConstraint_def query_def Let_def)

theorem removeConstraint_amended_witness:
  "removeConstraint (mysql_generator plain_env) (JStr ''db'') (scripted_channel [Inr []]) []
       (JStr ''t'') (JStr ''missing_c'')
     = (Inl (UnknownConstraintError ''Constraint missing_c on table t does not exist''
               (JStr ''missing_c'') (JStr ''t'')),
        [constraints_query_t (JStr ''missing_c'')])
   \<and> removeConstraint (mysql_generator plain_env) (JStr ''db'')
       (scripted_channel
          [Inr [JObj [(''constraintType'', JStr ''FOREIGN KEY''), (''tableName'', JStr ''t''),
                      (''constraintName'', JStr ''fk_a'')]]]) []
       (JStr ''t'') (JStr ''fk_a'')
     = (Inr [], [constraints_query_t (JStr ''fk_a''),
                 ''ALTER TABLE `t` DROP FOREIGN KEY `fk_a`;''])
   \<and> removeConstraint (mysql_generator plain_env) (JStr ''db'')
       (scripted_channel
          [Inr [JObj [(''constraintType'', JStr ''UNIQUE''), (''tableName'', JStr ''t''),
                      (''constraintName'', JStr ''uniq_a'')]]]) []
       (JStr ''t'') (JStr ''uniq_a'')
     = (Inr [], [constraints_query_t (JStr ''uniq_a''), ''DROP INDEX `uniq_a` ON `t`''])"
proof -
  let ?gen = "mysql_generator plain_env"
  let ?table = "JObj [(''tableName'', JStr ''t''), (''schema'', JStr ''db'')]"
  let ?fk = "JObj [(''constraintType'', JStr ''FOREIGN KEY''), (''tableName'', JStr ''t''),
                      (''constraintName'', JStr ''fk_a'')]"
  let ?uq = "JObj [(''constraintType'', JStr ''UNIQUE''), (''tableName'', JStr ''t''),
                      (''constraintName'', JStr ''uniq_a'')]"
  have d: "gen_dropForeignKeyQuery ?gen (JStr ''t'') (JStr ''fk_a'')
             = Inr ''ALTER TABLE `t` DROP FOREIGN KEY `fk_a`;''"
    by (simp add: mysql_generator_def dropForeignKeyQuery_def plain_env_def)
  have i: "gen_removeIndexQuery ?gen (field ?uq ''tableName'') (field ?uq ''constraintName'')
             = Inr ''DROP INDEX `uniq_a` ON `t`''"
    by (simp add: mysql_generator_def removeIndexQuery_def plain_env_def)
  have c1: "removeConstraint ?gen (JStr ''db'') (scripted_channel [Inr []]) []
       (JStr ''t'') (JStr ''missing_c'')
     = (Inl (UnknownConstraintError ''Constraint missing_c on table t does not exist''
               (JStr ''missing_c'') (JStr ''t'')),
        [constraints_query_t (JStr ''missing_c'')])"
    using removeConstraint_amended [of "JStr ''db''" "JStr ''t''" ?table ?gen
        "JStr ''missing_c''" "constraints_query_t (JStr ''missing_c'')"
        "scripted_channel [Inr []]" "[]" "[]"]
      table_argument_t constraints_query_t
    by (simp add: scripted_channel_def Let_def)
  have c2: "removeConstraint ?gen (JStr ''db'') (scripted_channel [Inr [?fk]]) []
       (JStr ''t'') (JStr ''fk_a'')
     = (Inr [], [constraints_query_t (JStr ''fk_a''),
                 ''ALTER TABLE `t` DROP FOREIGN KEY `fk_a`;''])"
    using removeConstraint_amended [of "JStr ''db''" "JStr ''t''" ?table ?gen
        "JStr ''fk_a''" "constraints_query_t (JStr ''fk_a'')"
        "scripted_channel [Inr [?fk]]" "[]" "[?fk]"]
      table_argument_t constraints_query_t d
    by (simp add: scripted_channel_def Let_def)
  have c3: "removeConstraint ?gen (JStr ''db'') (scripted_channel [Inr [?uq]]) []
       (JStr ''t'') (JStr ''uniq_a'')
     = (Inr [], [constraints_query_t (JStr ''uniq_a''), ''DROP INDEX `uniq_a` ON `t`''])"
    using removeConstraint_amended [of "JStr ''db''" "JStr ''t''" ?table ?gen
        "JStr ''uniq_a''" "constraints_query_t (JStr ''uniq_a'')"
        "scripted_channel [Inr [?uq]]" "[]" "[?uq]"]
      table_argument_t constraints_query_t i
    by (simp add: scripted_channel_def Let_def)
  from c1 c2 c3 show ?thesis by simp
qed

text \<open>
  Claim C5 as stated fails where a row is returned whose kind is the empty string: the
  kind is not FOREIGN KEY, yet no drop of an index is submitted; the error is raised.
\<close>

theorem removeConstraint_counterexample:
  "removeConstraint (mysql_generator plain_env) (JStr ''db'')
       (scripted_channel
          [Inr [JObj [(''constraintType'', JStr []), (''tableName'', JStr ''t''),
                      (''constraintName'', JStr ''c'')]]]) []
       (JStr ''t'') (JStr ''c'')
     = (Inl (UnknownConstraintError ''Constraint c on table t does not exist''
               (JStr ''c'') (JStr ''t'')),
        [constraints_query_t (JStr ''c'')])"
  by (simp add: removeConstraint_def table_argument_t constraints_query_t query_def
      scripted_channel_def)







text \<open>
  Claim C2. The claim asks, for a column whose type string holds both PRIMARY KEY and
  REFERENCES, for one trailing PRIMARY KEY clause that lists it, one trailing FOREIGN
  KEY clause for it, and an inline fragment that holds neither keyword. The source sets
  out to do so (\<^verbatim>\<open>// MySQL doesn't support inline REFERENCES declarations: move to the
  end\<close>, and the replacement of \<^verbatim>\<open>/PRIMARY KEY/\<close> by nothing), but it works on the
  text of the type string: the replacement deletes the first PRIMARY KEY it meets, and
  the reference is looked for after any space. With the column
  \<^verbatim>\<open>id: "VARCHAR(20) DEFAULT 'PRIMARY KEY' PRIMARY KEY REFERENCES owners (id)"\<close> the
  words inside the default are deleted and the keyword stays in the inline fragment,
  beside the trailing clause. With the column
  \<^verbatim>\<open>id: "INTEGER PRIMARY KEY COMMENT 'REFERENCES legacy'"\<close>, where REFERENCES follows
  a quote, nothing matches and the call throws.
\<close>

theorem createTable_keyword_left_inline:
  "walk_columns plain_env
       [(''id'', ''VARCHAR(20) DEFAULT '' @ [CHR 0x27] @ ''PRIMARY KEY'' @ [CHR 0x27]
                 @ '' PRIMARY KEY REFERENCES owners (id)'')]
       [(''id'', ''VARCHAR(20) DEFAULT '' @ [CHR 0x27] @ ''PRIMARY KEY'' @ [CHR 0x27]
                 @ '' PRIMARY KEY REFERENCES owners (id)'')] [] [] []
     = Inr ([''id''], [(''id'', ''REFERENCES owners (id)'')],
            [''`id` VARCHAR(20) DEFAULT '' @ [CHR 0x27, CHR 0x27] @ '' PRIMARY KEY''])
   \<and> includes_str (''`id` VARCHAR(20) DEFAULT '' @ [CHR 0x27, CHR 0x27] @ '' PRIMARY KEY'')
         ''PRIMARY KEY''
   \<and> createTableQuery plain_env (JStr ''t'')
       [(''id'', ''VARCHAR(20) DEFAULT '' @ [CHR 0x27] @ ''PRIMARY KEY'' @ [CHR 0x27]
                 @ '' PRIMARY KEY REFERENCES owners (id)'')] (JObj [])
     = Inr (''CREATE TABLE IF NOT EXISTS `t` (`id` VARCHAR(20) DEFAULT ''
            @ [CHR 0x27, CHR 0x27] @ '' PRIMARY KEY, PRIMARY KEY (`id`), ''
            @ ''FOREIGN KEY (`id`) REFERENCES owners (id)) ENGINE=InnoDB;'')
   \<and> includes_str (''INTEGER PRIMARY KEY COMMENT '' @ [CHR 0x27] @ ''REFERENCES legacy''
                    @ [CHR 0x27]) ''PRIMARY KEY''
   \<and> includes_str (''INTEGER PRIMARY KEY COMMENT '' @ [CHR 0x27] @ ''REFERENCES legacy''
                    @ [CHR 0x27]) ''REFERENCES''
   \<and> createTableQuery plain_env (JStr ''t'')
       [(''id'', ''INTEGER PRIMARY KEY COMMENT '' @ [CHR 0x27] @ ''REFERENCES legacy''
                 @ [CHR 0x27])] (JObj [])
     = Inl (TypeError ''Cannot read property 1 of null'')"
  by code_simp

end
